theory Spec2Isabelle
  imports
    Main
    "HOL-Library.Word"
    "HOL-Library.AList"
    "HOL-Library.Mapping"
    "HOL-Library.AList_Mapping"
    "HOL-Library.Char_ord"
    "HOL-Library.List_Lexorder"
    "HOL-Library.Multiset"
begin

section \<open>Go base types used by the connector\<close>

text \<open>
  Go's \<^verbatim>\<open>int\<close> on the 64-bit targets the agent is built for: a 64-bit two's
  complement integer, read through \<open>sint\<close>. Go strings are byte strings: \<open>string\<close>.
\<close>

type_synonym go_int = "64 word"

text \<open>
  \<^verbatim>\<open>strconv.Itoa\<close> and \<^verbatim>\<open>strconv.Atoi\<close> belong to Go's standard library, not
  to the repository. \<open>Itoa\<close> prints the decimal digits, with a leading minus for a negative
  value.
\<close>

definition digit_char :: "nat \<Rightarrow> char" where
  "digit_char d = char_of (48 + d)"

fun digits :: "nat \<Rightarrow> string" where
  "digits n = (if n < 10 then [digit_char n] else digits (n div 10) @ [digit_char (n mod 10)])"

declare digits.simps [simp del]

definition Itoa :: "go_int \<Rightarrow> string" where
  "Itoa w = (if sint w < 0 then CHR ''-'' # digits (nat (- sint w)) else digits (nat (sint w)))"

text \<open>
  \<^verbatim>\<open>strconv.ParseUint(s, 10, 64)\<close> reads the bytes from left to right. A byte that
  is no decimal digit is a syntax error. A value beyond \<open>2\<^sup>6\<^sup>4 - 1\<close> is a range error,
  reported at the digit that reaches it, before any later byte is read.
\<close>

definition digit_val :: "char \<Rightarrow> nat option" where
  "digit_val c = (let b = (of_char c :: nat) in if 48 \<le> b \<and> b \<le> 57 then Some (b - 48) else None)"

datatype uint_result = ErrSyntax | ErrRange | Uint nat

fun ParseUint_loop :: "nat \<Rightarrow> string \<Rightarrow> uint_result" where
  "ParseUint_loop n [] = Uint n"
| "ParseUint_loop n (c # cs) =
     (case digit_val c of
        None \<Rightarrow> ErrSyntax
      | Some d \<Rightarrow>
          if n \<ge> (2 ^ 64 - 1) div 10 + 1 then ErrRange
          else if n * 10 + d > 2 ^ 64 - 1 then ErrRange
          else ParseUint_loop (n * 10 + d) cs)"

definition ParseUint :: "string \<Rightarrow> uint_result" where
  "ParseUint s = (if s = [] then ErrSyntax else ParseUint_loop 0 s)"

text \<open>
  The value \<^verbatim>\<open>strconv.ParseInt(s, 10, 0)\<close> returns beside its error: 0 on a syntax
  error, and on a range error (of \<^verbatim>\<open>ParseUint\<close>, or a magnitude that does not fit
  the 64-bit \<^verbatim>\<open>int\<close>) the bound of the type on the side of the sign.
\<close>

definition ParseInt :: "string \<Rightarrow> int" where
  "ParseInt s0 =
     (case s0 of
        [] \<Rightarrow> 0
      | c # cs \<Rightarrow>
          (let neg = (c = CHR ''-'');
               s = (if c = CHR ''+'' \<or> c = CHR ''-'' then cs else s0)
           in case ParseUint s of
                ErrSyntax \<Rightarrow> 0
              | ErrRange \<Rightarrow> if neg then - (2 ^ 63) else 2 ^ 63 - 1
              | Uint un \<Rightarrow>
                  if \<not> neg \<and> un \<ge> 2 ^ 63 then 2 ^ 63 - 1
                  else if neg \<and> un > 2 ^ 63 then - (2 ^ 63)
                  else if neg then - int un else int un))"

text \<open>
  \<^verbatim>\<open>strconv.Atoi\<close>: for a string of 1 to 18 bytes it runs a loop of its own, which
  cannot overflow and returns what \<^verbatim>\<open>ParseInt\<close> returns; every other string goes to
  \<^verbatim>\<open>ParseInt\<close>. \<^verbatim>\<open>BuildConnectorDataByTags\<close> discards the error.
\<close>

definition Atoi :: "string \<Rightarrow> go_int" where
  "Atoi s = word_of_int (ParseInt s)"

section \<open>models: ConnectorData and Socket\<close>

record ConnectorData =
  cd_Name :: string
  cd_Connector :: string
  cd_Type :: string
  cd_Port :: go_int
  cd_TargetHostname :: string
  cd_PolicyGroup :: string
  cd_Ec2Tag :: string
  cd_InstanceId :: string
  cd_PluginName :: string
  cd_ManagedBy :: string

text \<open>A Go \<^verbatim>\<open>map[string]string\<close>; reading a missing key gives the empty string.\<close>

type_synonym tags = "(string, string) mapping"

definition tag :: "tags \<Rightarrow> string \<Rightarrow> string" where
  "tag m k = Mapping.lookup_default [] m k"

definition tagKeyManagedBy :: string where
  "tagKeyManagedBy = ''managed_by''"

definition ConnectorData_Tags :: "ConnectorData \<Rightarrow> tags" where
  "ConnectorData_Tags c =
     (let data =
        Mapping.update ''plugin_name'' (cd_PluginName c)
        (Mapping.update ''instance_id'' (cd_InstanceId c)
        (Mapping.update ''policy_group'' (cd_PolicyGroup c)
        (Mapping.update ''ec2_tag'' (cd_Ec2Tag c)
        (Mapping.update ''target_hostname'' (cd_TargetHostname c)
        (Mapping.update ''target_port'' (Itoa (cd_Port c))
        (Mapping.update ''type'' (cd_Type c)
        (Mapping.update ''connector_name'' (cd_Connector c)
        (Mapping.update ''name'' (cd_Name c) Mapping.empty))))))))
      in if cd_ManagedBy c \<noteq> [] then Mapping.update tagKeyManagedBy (cd_ManagedBy c) data
         else data)"

definition ConnectorData_Key :: "ConnectorData \<Rightarrow> string" where
  "ConnectorData_Key c =
     (if cd_Name c = [] \<and> cd_Connector c = [] \<and> cd_Type c = [] \<and> cd_Port c = 0 then []
      else cd_Name c @ '';'' @ cd_Connector c @ '';'' @ cd_PluginName c)"

text \<open>The zero value \<^verbatim>\<open>ConnectorData{}\<close>.\<close>

definition ConnectorData_zero :: ConnectorData where
  "ConnectorData_zero =
     \<lparr>cd_Name = [], cd_Connector = [], cd_Type = [], cd_Port = 0, cd_TargetHostname = [],
      cd_PolicyGroup = [], cd_Ec2Tag = [], cd_InstanceId = [], cd_PluginName = [],
      cd_ManagedBy = []\<rparr>"

text \<open>
  \<^verbatim>\<open>models.Policy\<close> is declared outside the files at hand; the reconciler reads
  only its \<^verbatim>\<open>Name\<close>.
\<close>

record Policy =
  policy_Name :: string

text \<open>
  \<^verbatim>\<open>models.Socket\<close>, with the fields the connector core reads or writes. The
  fields left out (Tunnels, Username, SocketTcpPorts, Dnsname, ProtectedSocket,
  ProtectedUsername, ProtectedPassword, SSHCa, UpstreamCert, UpstreamKey, UpstreamCa,
  CustomDomains, OrgCustomDomain) are used by none of the functions below. The pointer
  \<^verbatim>\<open>ConnectorData\<close> is an option: \<open>None\<close> is \<^verbatim>\<open>nil\<close>.
\<close>

record Socket =
  SocketID :: string
  Name :: string
  Description :: string
  SocketType :: string
  AllowedEmailAddresses :: "string list"
  AllowedEmailDomains :: "string list"
  UpstreamUsername :: string
  UpstreamPassword :: string
  UpstreamHttpHostname :: string
  UpstreamType :: string
  CloudAuthEnabled :: bool
  ConnectorAuthenticationEnabled :: bool
  Tags :: tags
  PolicyNames :: "string list"
  Policies :: "Policy list"
  TargetHostname :: string
  TargetPort :: go_int
  PolicyGroup :: string
  Ec2Tag :: string
  InstanceId :: string
  PluginName :: string
  ManagedBy :: string
  ConnectorData :: "ConnectorData option"

text \<open>
  \<^verbatim>\<open>strings.Replace(s, old, new, -1)\<close> for a one-byte \<^verbatim>\<open>old\<close> and
  \<^verbatim>\<open>new\<close>: every occurrence of the byte is replaced.
\<close>

definition Replace1 :: "string \<Rightarrow> char \<Rightarrow> char \<Rightarrow> string" where
  "Replace1 s old new = map (\<lambda>c. if c = old then new else c) s"

definition SanitizeName :: "Socket \<Rightarrow> Socket" where
  "SanitizeName s =
     (let socketName = Replace1 (Name s) CHR ''.'' CHR ''-'';
          socketName = Replace1 socketName CHR '' '' CHR ''-'';
          socketName = Replace1 socketName CHR ''.'' CHR ''-''
      in s\<lparr>Name := Replace1 socketName CHR ''_'' CHR ''-''\<rparr>)"

definition BuildConnectorData :: "string \<Rightarrow> string \<Rightarrow> Socket \<Rightarrow> Socket" where
  "BuildConnectorData connectorName managedBy s =
     s\<lparr>ConnectorData := Some
        \<lparr>cd_Name = Name s,
         cd_Connector = connectorName,
         cd_Type = SocketType s,
         cd_Port = TargetPort s,
         cd_TargetHostname = TargetHostname s,
         cd_PolicyGroup = PolicyGroup s,
         cd_Ec2Tag = Ec2Tag s,
         cd_InstanceId = InstanceId s,
         cd_PluginName = PluginName s,
         cd_ManagedBy = managedBy\<rparr>\<rparr>"

definition BuildConnectorDataAndTags :: "string \<Rightarrow> string \<Rightarrow> Socket \<Rightarrow> Socket" where
  "BuildConnectorDataAndTags connectorName managedBy s =
     (let s = BuildConnectorData connectorName managedBy s
      in case ConnectorData s of
           None \<Rightarrow> s
         | Some cd \<Rightarrow> s\<lparr>Tags := ConnectorData_Tags cd\<rparr>)"

definition BuildConnectorDataByTags :: "Socket \<Rightarrow> Socket" where
  "BuildConnectorDataByTags s =
     (if Mapping.is_empty (Tags s) then s\<lparr>ConnectorData := Some ConnectorData_zero\<rparr>
      else
        (let port = Atoi (tag (Tags s) ''target_port'')
         in s\<lparr>ConnectorData := Some
              \<lparr>cd_Name = tag (Tags s) ''name'',
               cd_Connector = tag (Tags s) ''connector_name'',
               cd_Type = tag (Tags s) ''type'',
               cd_Port = port,
               cd_TargetHostname = tag (Tags s) ''target_hostname'',
               cd_PolicyGroup = tag (Tags s) ''policy_group'',
               cd_Ec2Tag = tag (Tags s) ''ec2_tag'',
               cd_InstanceId = tag (Tags s) ''instance_id'',
               cd_PluginName = tag (Tags s) ''plugin_name'',
               cd_ManagedBy = tag (Tags s) tagKeyManagedBy\<rparr>\<rparr>))"

definition SetupTypeAndUpstreamTypeByPortOrTags :: "Socket \<Rightarrow> Socket" where
  "SetupTypeAndUpstreamTypeByPortOrTags s0 =
     (if UpstreamType s0 = [] then
        (let s = s0\<lparr>UpstreamType := ''http''\<rparr>
         in if SocketType s \<noteq> [] then
              (if SocketType s = ''mysql'' then
                 s\<lparr>UpstreamType := ''mysql'', SocketType := ''database''\<rparr>
               else if SocketType s = ''postgres'' then
                 s\<lparr>UpstreamType := ''postgres'', SocketType := ''database''\<rparr>
               else if SocketType s = ''database'' then
                 (let s = (if TargetPort s = 3306 then s\<lparr>UpstreamType := ''mysql''\<rparr> else s)
                  in if TargetPort s = 5432 then s\<lparr>UpstreamType := ''postgres''\<rparr> else s)
               else if SocketType s = ''https'' then
                 s\<lparr>SocketType := ''http'', UpstreamType := ''https''\<rparr>
               else s)
            else
              (if TargetPort s = 3306 then
                 s\<lparr>SocketType := ''database'', UpstreamType := ''mysql''\<rparr>
               else if TargetPort s = 5432 then
                 s\<lparr>SocketType := ''database'', UpstreamType := ''postgres''\<rparr>
               else if TargetPort s = 22 then s\<lparr>SocketType := ''ssh''\<rparr>
               else if TargetPort s = 80 then s\<lparr>SocketType := ''http''\<rparr>
               else if TargetPort s = 443 then
                 s\<lparr>SocketType := ''http'', UpstreamType := ''https''\<rparr>
               else s))
      else s0)"

section \<open>core: comparing string slices\<close>

text \<open>
  \<^verbatim>\<open>sort.Strings\<close> sorts a slice in place, in the byte-wise lexicographic order
  of Go strings; \<open>sort\<close> at type \<open>string list\<close> is that order. The function returns,
  with its verdict, the contents of the two backing arrays as it leaves them: the
  caller's slices share those arrays. The element loop runs only on slices of equal
  length, so its second equation (an index out of range) is never reached.
\<close>

fun elementsEqual :: "string list \<Rightarrow> string list \<Rightarrow> bool" where
  "elementsEqual [] b = True"
| "elementsEqual (v # a) [] = False"
| "elementsEqual (v # a) (w # b) = (if v \<noteq> w then False else elementsEqual a b)"

definition stringSlicesEqual :: "string list \<Rightarrow> string list \<Rightarrow> bool \<times> string list \<times> string list" where
  "stringSlicesEqual a0 b0 =
     (let a = sort a0; b = sort b0
      in if length a \<noteq> length b then (False, a, b)
         else (elementsEqual a b, a, b))"

text \<open>
  The guard of \<^verbatim>\<open>CheckAndUpdateSocket\<close> (its first nine lines): the chain of
  \<^verbatim>\<open>stringSlicesEqual\<close> calls joined by Go's short-circuit \<^verbatim>\<open>&&\<close>, so a call
  runs, and sorts its two slices, only when every call before it returned true. The
  result is the value of \<^verbatim>\<open>check\<close> and the two sockets with their slices as the
  calls leave them in memory: both parameters are copies of the caller's structs, but
  their slices point to the caller's backing arrays. Every socket has slices of its own
  here; two discovered sockets that share one backing array would see each other's
  slices sorted, which changes the order of the strings inside an event and never which
  events are issued.
\<close>

definition trackedSlicesCheck :: "Socket \<Rightarrow> Socket \<Rightarrow> bool \<times> Socket \<times> Socket" where
  "trackedSlicesCheck apiSocket localSocket =
     (let (c1, ae, le) =
            stringSlicesEqual (AllowedEmailAddresses apiSocket) (AllowedEmailAddresses localSocket);
          (c2, le, ae) = (if c1 then stringSlicesEqual le ae else (False, le, ae));
          (c3, ad, ld) =
            (if c2 then
               stringSlicesEqual (AllowedEmailDomains apiSocket) (AllowedEmailDomains localSocket)
             else (False, AllowedEmailDomains apiSocket, AllowedEmailDomains localSocket));
          (c4, ld, ad) = (if c3 then stringSlicesEqual ld ad else (False, ld, ad));
          (check, ap, lp) =
            (if length (PolicyNames apiSocket) > 0 \<or> length (PolicyNames localSocket) > 0 then
               (let (c5, ap, lp) =
                      (if c4 then stringSlicesEqual (PolicyNames apiSocket) (PolicyNames localSocket)
                       else (False, PolicyNames apiSocket, PolicyNames localSocket));
                    (c6, lp, ap) = (if c5 then stringSlicesEqual lp ap else (False, lp, ap))
                in (c6, ap, lp))
             else (c4, PolicyNames apiSocket, PolicyNames localSocket))
      in (check,
          apiSocket\<lparr>AllowedEmailAddresses := ae, AllowedEmailDomains := ad, PolicyNames := ap\<rparr>,
          localSocket\<lparr>AllowedEmailAddresses := le, AllowedEmailDomains := ld, PolicyNames := lp\<rparr>))"

section \<open>core: the reconciler and the control plane\<close>

text \<open>
  A Go \<^verbatim>\<open>error\<close> value, a run-time panic (a nil pointer dereference) and
  \<^verbatim>\<open>log.Fatalf\<close>, which ends the process.
\<close>

datatype error = Error string | Panic string | Fatal string

record connectTunnelData =
  ctd_key :: string
  ctd_socket :: Socket
  ctd_action :: string

text \<open>
  What the connector does to the outside, in the order it does it: the calls on the
  control-plane client (\<^verbatim>\<open>api.API\<close>), the calls of the policy manager, and the sends
  on \<^verbatim>\<open>connectChan\<close>.
\<close>

datatype event =
    GetSockets
  | CreateSocket Socket
  | UpdateSocket string Socket
  | DeleteSocket string
  | ApplyPolicies Socket "string list"
  | Send connectTunnelData

text \<open>
  The control-plane client is an interface implemented outside the files at hand. It is
  a parameter here: each method's reply is an arbitrary function of the events so far and
  of the call's arguments, so every theorem below holds for every control plane.
\<close>

record API =
  GetSockets_reply :: "event list \<Rightarrow> error + Socket list"
  CreateSocket_reply :: "event list \<Rightarrow> Socket \<Rightarrow> error + Socket"
  UpdateSocket_reply :: "event list \<Rightarrow> string \<Rightarrow> Socket \<Rightarrow> error option"
  DeleteSocket_reply :: "event list \<Rightarrow> string \<Rightarrow> error option"

text \<open>
  The parts of \<^verbatim>\<open>ConnectorCore\<close> that a tick reads and never writes:
  \<^verbatim>\<open>cfg.Connector.Name\<close>, \<^verbatim>\<open>discovery.Name()\<close>, \<^verbatim>\<open>metadata.Principal\<close> and the
  client. The tunnel registry and the channel are passed as state.
\<close>

record ConnectorCore =
  cfg_Connector_Name :: string
  discovery_Name :: string
  metadata_Principal :: string
  border0API :: API

text \<open>The first statement of \<^verbatim>\<open>CreateSocketAndTunnel\<close>: an empty description is filled in.\<close>

definition withDescription :: "ConnectorCore \<Rightarrow> Socket \<Rightarrow> Socket" where
  "withDescription c s =
     (if Description s = [] then s\<lparr>Description := ''created by '' @ cfg_Connector_Name c\<rparr>
      else s)"

definition CreateSocketAndTunnel ::
  "ConnectorCore \<Rightarrow> event list \<Rightarrow> Socket \<Rightarrow> (error + Socket) \<times> event list" where
  "CreateSocketAndTunnel c tr s0 =
     (let s = withDescription c s0
      in case CreateSocket_reply (border0API c) tr s of
           Inl err \<Rightarrow> (Inl err, tr @ [CreateSocket s])
         | Inr createdSocket \<Rightarrow>
             (Inr (createdSocket\<lparr>PolicyNames := PolicyNames s\<rparr>),
              tr @ [CreateSocket s, ApplyPolicies createdSocket (PolicyNames s)]))"

definition RecreateSocket ::
  "ConnectorCore \<Rightarrow> event list \<Rightarrow> string \<Rightarrow> Socket \<Rightarrow> (error + Socket) \<times> event list" where
  "RecreateSocket c tr socketID localSocket =
     (case DeleteSocket_reply (border0API c) tr socketID of
        Some err \<Rightarrow> (Inl err, tr @ [DeleteSocket socketID])
      | None \<Rightarrow>
          (case CreateSocketAndTunnel c (tr @ [DeleteSocket socketID]) localSocket of
             (Inl err, tr') \<Rightarrow> (Inl err, tr')
           | (Inr createdSocket, tr') \<Rightarrow> (Inr (BuildConnectorDataByTags createdSocket), tr')))"

text \<open>
  \<^verbatim>\<open>CheckAndUpdateSocket\<close> returns, after its result and the events, the two
  sockets as the caller finds them in memory afterwards (see \<open>trackedSlicesCheck\<close>).
\<close>

definition CheckAndUpdateSocket ::
  "ConnectorCore \<Rightarrow> event list \<Rightarrow> Socket \<Rightarrow> Socket \<Rightarrow>
     (error + Socket) \<times> event list \<times> Socket \<times> Socket" where
  "CheckAndUpdateSocket c tr apiSocket0 localSocket0 =
     (let (check, apiSocket, localSocket) = trackedSlicesCheck apiSocket0 localSocket0
      in if \<not> check \<or> UpstreamHttpHostname apiSocket \<noteq> UpstreamHttpHostname localSocket \<or>
            UpstreamUsername apiSocket \<noteq> UpstreamUsername localSocket \<or>
            UpstreamType apiSocket \<noteq> UpstreamType localSocket \<or>
            ConnectorAuthenticationEnabled apiSocket \<noteq> ConnectorAuthenticationEnabled localSocket
         then
           (let upd = apiSocket
                  \<lparr>AllowedEmailAddresses := AllowedEmailAddresses localSocket,
                   AllowedEmailDomains := AllowedEmailDomains localSocket,
                   UpstreamHttpHostname := UpstreamHttpHostname localSocket,
                   UpstreamUsername := UpstreamUsername localSocket,
                   ConnectorAuthenticationEnabled := ConnectorAuthenticationEnabled localSocket,
                   UpstreamType := [],
                   CloudAuthEnabled := True,
                   Tags := Tags localSocket\<rparr>;
                tr1 = tr @ [ApplyPolicies upd (PolicyNames localSocket)];
                upd = upd\<lparr>PolicyNames := PolicyNames localSocket\<rparr>;
                tr2 = tr1 @ [UpdateSocket (SocketID upd) upd]
            in case UpdateSocket_reply (border0API c) tr1 (SocketID upd) upd of
                 Some err \<Rightarrow> (Inl err, tr2, apiSocket, localSocket)
               | None \<Rightarrow> (Inr upd, tr2, apiSocket, localSocket))
         else (Inr apiSocket, tr, apiSocket, localSocket))"

text \<open>One iteration of the loop of \<^verbatim>\<open>CheckSocketsToDelete\<close>, and the loop.\<close>

definition deleteStep ::
  "ConnectorCore \<Rightarrow> event list \<Rightarrow> Socket \<Rightarrow> (string \<rightharpoonup> Socket) \<Rightarrow>
     error option \<times> (string \<rightharpoonup> Socket) \<times> event list" where
  "deleteStep c tr apiSocket localSocketsMap =
     (case ConnectorData apiSocket of
        None \<Rightarrow> (Some (Panic ''nil pointer dereference''), localSocketsMap, tr)
      | Some acd \<Rightarrow>
          if ConnectorData_Key acd = [] then (None, localSocketsMap, tr)
          else
            (case localSocketsMap (ConnectorData_Key acd) of
               Some s \<Rightarrow>
                 (case ConnectorData s of
                    None \<Rightarrow> (Some (Panic ''nil pointer dereference''), localSocketsMap, tr)
                  | Some scd \<Rightarrow>
                      if scd \<noteq> acd then
                        (case RecreateSocket c tr (SocketID apiSocket) s of
                           (Inl err, tr') \<Rightarrow> (Some err, localSocketsMap, tr')
                         | (Inr createdSocket, tr') \<Rightarrow>
                             (None, localSocketsMap(ConnectorData_Key acd \<mapsto> createdSocket), tr'))
                      else (None, localSocketsMap, tr))
             | None \<Rightarrow>
                 if cd_Connector acd = cfg_Connector_Name c \<and>
                    cd_PluginName acd = discovery_Name c
                 then
                   (let tr1 = tr @ [Send \<lparr>ctd_key = ConnectorData_Key acd,
                                          ctd_socket = apiSocket,
                                          ctd_action = ''disconnect''\<rparr>];
                        tr2 = tr1 @ [DeleteSocket (SocketID apiSocket)]
                    in case DeleteSocket_reply (border0API c) tr1 (SocketID apiSocket) of
                         Some err \<Rightarrow> (Some err, localSocketsMap, tr2)
                       | None \<Rightarrow> (None, localSocketsMap, tr2))
                 else (None, localSocketsMap, tr)))"

fun CheckSocketsToDelete ::
  "ConnectorCore \<Rightarrow> event list \<Rightarrow> Socket list \<Rightarrow> (string \<rightharpoonup> Socket) \<Rightarrow>
     error option \<times> (string \<rightharpoonup> Socket) \<times> event list" where
  "CheckSocketsToDelete c tr [] localSocketsMap = (None, localSocketsMap, tr)"
| "CheckSocketsToDelete c tr (apiSocket # socketsFromApi) localSocketsMap =
     (case deleteStep c tr apiSocket localSocketsMap of
        (Some err, m, tr') \<Rightarrow> (Some err, m, tr')
      | (None, m, tr') \<Rightarrow> CheckSocketsToDelete c tr' socketsFromApi m)"

text \<open>
  One iteration of the loop of \<^verbatim>\<open>CheckSocketsToCreate\<close>, and the loop. The map
  entry of a compared server socket is rewritten with the socket as the comparison leaves
  it in memory: the map's value shares its slices with the copy that was compared.
\<close>

definition createStep ::
  "ConnectorCore \<Rightarrow> event list \<Rightarrow> Socket \<Rightarrow> (string \<rightharpoonup> Socket) \<Rightarrow>
     (error + Socket) \<times> (string \<rightharpoonup> Socket) \<times> event list" where
  "createStep c tr localSocket socketsFromApiMap =
     (case ConnectorData localSocket of
        None \<Rightarrow> (Inl (Panic ''nil pointer dereference''), socketsFromApiMap, tr)
      | Some lcd \<Rightarrow>
          (case socketsFromApiMap (ConnectorData_Key lcd) of
             None \<Rightarrow>
               (case CreateSocketAndTunnel c tr localSocket of
                  (Inl err, tr') \<Rightarrow> (Inl err, socketsFromApiMap, tr')
                | (Inr createdSocket, tr') \<Rightarrow>
                    (Inr (BuildConnectorData (cfg_Connector_Name c) (metadata_Principal c)
                            (createdSocket\<lparr>PluginName := discovery_Name c\<rparr>)),
                     socketsFromApiMap, tr'))
           | Some apiSocket \<Rightarrow>
               (case CheckAndUpdateSocket c tr apiSocket localSocket of
                  (r, tr', apiMem, localMem) \<Rightarrow>
                    (r, socketsFromApiMap(ConnectorData_Key lcd \<mapsto> apiMem), tr'))))"

fun CheckSocketsToCreate ::
  "ConnectorCore \<Rightarrow> event list \<Rightarrow> Socket list \<Rightarrow> (string \<rightharpoonup> Socket) \<Rightarrow> Socket list \<Rightarrow>
     (error + Socket list) \<times> event list" where
  "CheckSocketsToCreate c tr [] socketsFromApiMap socketsToConnect = (Inr socketsToConnect, tr)"
| "CheckSocketsToCreate c tr (localSocket # localSockets) socketsFromApiMap socketsToConnect =
     (case createStep c tr localSocket socketsFromApiMap of
        (Inl err, m, tr') \<Rightarrow> (Inl err, tr')
      | (Inr s, m, tr') \<Rightarrow>
          CheckSocketsToCreate c tr' localSockets m (socketsToConnect @ [s]))"

text \<open>
  The first loop of \<^verbatim>\<open>SocketsCoreHandler\<close> prepares each discovered socket and
  indexes it by the key of its ConnectorData; a later socket with the same key replaces
  an earlier one in the index. \<^verbatim>\<open>BuildConnectorData\<close> has just set the pointer
  when the tags are written, so the \<open>None\<close> branch below is never taken.
\<close>

definition bootstrapSocket :: "ConnectorCore \<Rightarrow> Socket \<Rightarrow> Socket" where
  "bootstrapSocket c socket0 =
     (let socket = socket0\<lparr>PluginName := discovery_Name c\<rparr>;
          socket = SanitizeName socket;
          socket = BuildConnectorData (cfg_Connector_Name c) (metadata_Principal c) socket;
          socket = (case ConnectorData socket of
                      None \<Rightarrow> socket
                    | Some cd \<Rightarrow> socket\<lparr>Tags := ConnectorData_Tags cd\<rparr>)
      in SetupTypeAndUpstreamTypeByPortOrTags socket)"

fun indexLocalSockets :: "Socket list \<Rightarrow> (string \<rightharpoonup> Socket) \<Rightarrow> (string \<rightharpoonup> Socket)" where
  "indexLocalSockets [] localSocketsMap = localSocketsMap"
| "indexLocalSockets (socket # sockets) localSocketsMap =
     indexLocalSockets sockets
       (case ConnectorData socket of
          None \<Rightarrow> localSocketsMap
        | Some cd \<Rightarrow> localSocketsMap(ConnectorData_Key cd \<mapsto> socket))"

text \<open>
  The second loop rebuilds the ConnectorData of each server socket from its tags and,
  for a socket with a key, appends the names of its policies to its policy names and
  indexes it.
\<close>

definition prepareApiSocket :: "Socket \<Rightarrow> Socket" where
  "prepareApiSocket socket0 =
     (let socket = BuildConnectorDataByTags socket0
      in case ConnectorData socket of
           None \<Rightarrow> socket
         | Some cd \<Rightarrow>
             if ConnectorData_Key cd \<noteq> [] then
               socket\<lparr>PolicyNames := PolicyNames socket @ map policy_Name (Policies socket)\<rparr>
             else socket)"

fun indexApiSockets :: "Socket list \<Rightarrow> (string \<rightharpoonup> Socket) \<Rightarrow> (string \<rightharpoonup> Socket)" where
  "indexApiSockets [] socketApiMap = socketApiMap"
| "indexApiSockets (socket # sockets) socketApiMap =
     indexApiSockets sockets
       (case ConnectorData socket of
          None \<Rightarrow> socketApiMap
        | Some cd \<Rightarrow>
            if ConnectorData_Key cd \<noteq> [] then socketApiMap(ConnectorData_Key cd \<mapsto> socket)
            else socketApiMap)"

definition SocketsCoreHandler ::
  "ConnectorCore \<Rightarrow> event list \<Rightarrow> Socket list \<Rightarrow> (error + Socket list) \<times> event list" where
  "SocketsCoreHandler c tr socketsToUpdate =
     (let discoveredSockets = map (bootstrapSocket c) socketsToUpdate;
          localSocketsMap = indexLocalSockets discoveredSockets Map.empty;
          tr1 = tr @ [GetSockets]
      in case GetSockets_reply (border0API c) tr of
           Inl err \<Rightarrow> (Inl err, tr1)
         | Inr fromApi \<Rightarrow>
             (let socketsFromApi = map prepareApiSocket fromApi;
                  socketApiMap = indexApiSockets socketsFromApi Map.empty
              in case CheckSocketsToDelete c tr1 socketsFromApi localSocketsMap of
                   (Some err, m, tr2) \<Rightarrow> (Inl err, tr2)
                 | (None, m, tr2) \<Rightarrow>
                     CheckSocketsToCreate c tr2 discoveredSockets socketApiMap []))"

section \<open>core: the tunnel registry and the tunnel jobs\<close>

text \<open>
  Modelled from the spec: \<^verbatim>\<open>ssh.Connection\<close>, the tunnel handle, is declared outside
  the files at hand. The spec says of it that it "reports a closed state"; that flag is
  all the core reads of it (\<^verbatim>\<open>IsClosed\<close>), and \<^verbatim>\<open>Close\<close> sets it.
\<close>

record Connection =
  conn_closed :: bool

definition Close :: "Connection \<Rightarrow> Connection" where
  "Close session = session\<lparr>conn_closed := True\<rparr>"

text \<open>
  Modelled from the spec: \<^verbatim>\<open>SyncMap\<close>, the tunnel registry, is declared outside the
  files at hand. The spec: "A process-wide, thread-safe mapping socket_id to
  TunnelHandle with add/get/delete/len." It is a list of entries here; \<open>Add\<close> replaces
  the entry of a key that is present.
\<close>

type_synonym SyncMap = "(string \<times> Connection) list"

definition SyncMap_Add :: "string \<Rightarrow> Connection \<Rightarrow> SyncMap \<Rightarrow> SyncMap" where
  "SyncMap_Add k v m = AList.update k v m"

definition SyncMap_Get :: "SyncMap \<Rightarrow> string \<Rightarrow> Connection option" where
  "SyncMap_Get m k = map_of m k"

definition SyncMap_Delete :: "string \<Rightarrow> SyncMap \<Rightarrow> SyncMap" where
  "SyncMap_Delete k m = AList.delete k m"

definition SyncMap_Len :: "SyncMap \<Rightarrow> nat" where
  "SyncMap_Len m = length m"

definition IsSocketConnected :: "SyncMap \<Rightarrow> string \<Rightarrow> bool" where
  "IsSocketConnected connectedTunnels k =
     (case SyncMap_Get connectedTunnels k of
        Some session \<Rightarrow> if conn_closed session then False else True
      | None \<Rightarrow> False)"

text \<open>The loop of \<^verbatim>\<open>HandleUpdates\<close> over the sockets to connect.\<close>

fun emitConnects :: "SyncMap \<Rightarrow> event list \<Rightarrow> Socket list \<Rightarrow> event list" where
  "emitConnects connectedTunnels tr [] = tr"
| "emitConnects connectedTunnels tr (socket # sockets) =
     emitConnects connectedTunnels
       (if \<not> IsSocketConnected connectedTunnels (SocketID socket) then
          tr @ [Send \<lparr>ctd_key = SocketID socket, ctd_socket = socket, ctd_action = ''connect''\<rparr>]
        else tr)
       sockets"

definition HandleUpdates ::
  "ConnectorCore \<Rightarrow> SyncMap \<Rightarrow> event list \<Rightarrow> Socket list \<Rightarrow> error option \<times> event list" where
  "HandleUpdates c connectedTunnels tr sockets =
     (case SocketsCoreHandler c tr sockets of
        (Inl err, tr') \<Rightarrow> (Some err, tr')
      | (Inr socketsToConnect, tr') \<Rightarrow> (None, emitConnects connectedTunnels tr' socketsToConnect))"

text \<open>
  What \<^verbatim>\<open>TunnelConnnect\<close> gets from outside the files at hand, as parameters: the
  session \<^verbatim>\<open>ssh.NewConnection\<close> returns, the results of
  \<^verbatim>\<open>GetUserIDFromAccessToken\<close>, \<^verbatim>\<open>GetOrganizationInfo\<close> and \<^verbatim>\<open>GetSocket\<close>,
  whether the CA certificate parses, and the error of \<^verbatim>\<open>session.Connect\<close> with the
  state it leaves the session in.
\<close>

record Organization =
  Certificates :: "string \<rightharpoonup> string"

record TunnelEnv =
  NewConnection_result :: Connection
  GetUserIDFromAccessToken_result :: "error + string"
  GetOrganizationInfo_result :: "error + Organization"
  GetSocket_result :: "string \<Rightarrow> error + Socket"
  AppendCertsFromPEM_result :: "string \<Rightarrow> bool"
  Connect_result :: "Socket \<Rightarrow> error option \<times> Connection"

text \<open>
  The registry holds a pointer to the session, so the state \<^verbatim>\<open>Connect\<close> leaves the
  session in is the state the registry's entry shows afterwards.
\<close>

definition TunnelConnnect ::
  "TunnelEnv \<Rightarrow> SyncMap \<Rightarrow> Socket \<Rightarrow> error option \<times> SyncMap" where
  "TunnelConnnect env connectedTunnels0 socket0 =
     (let session = NewConnection_result env;
          connectedTunnels = SyncMap_Add (SocketID socket0) session connectedTunnels0
      in case GetUserIDFromAccessToken_result env of
           Inl err \<Rightarrow> (Some err, connectedTunnels)
         | Inr userID \<Rightarrow>
             (case GetOrganizationInfo_result env of
                Inl err \<Rightarrow> (Some err, connectedTunnels)
              | Inr org \<Rightarrow>
                  (case GetSocket_result env (SocketID socket0) of
                     Inl err \<Rightarrow> (Some err, connectedTunnels)
                   | Inr socketFromApi \<Rightarrow>
                       (let socket = BuildConnectorDataByTags socketFromApi
                        in if ConnectorAuthenticationEnabled socket \<and>
                              Certificates org ''mtls_certificate'' = None
                           then (Some (Fatal ''error: no organization ca certificate found''),
                                 connectedTunnels)
                           else if ConnectorAuthenticationEnabled socket \<and>
                              (case Certificates org ''mtls_certificate'' of
                                 None \<Rightarrow> False
                               | Some caCert \<Rightarrow> \<not> AppendCertsFromPEM_result env caCert)
                           then (Some (Fatal ''error: failed to parse ca certificate''),
                                 connectedTunnels)
                           else
                             (case Connect_result env socket of
                                (Some err, session') \<Rightarrow>
                                  (Some err,
                                   SyncMap_Delete (SocketID socket)
                                     (map (\<lambda>(k, v). if k = SocketID socket0 then (k, session')
                                                      else (k, v)) connectedTunnels))
                              | (None, session') \<Rightarrow>
                                  (None,
                                   map (\<lambda>(k, v). if k = SocketID socket0 then (k, session')
                                                    else (k, v)) connectedTunnels))))))"

text \<open>
  One message of \<^verbatim>\<open>connectChan\<close> handled by \<^verbatim>\<open>TunnelConnectJob\<close>. The job runs
  \<^verbatim>\<open>TunnelConnnect\<close> in a goroutine of its own and only logs its error; here the call
  runs to its end before the next message.
\<close>

definition TunnelConnectJob_handle :: "TunnelEnv \<Rightarrow> SyncMap \<Rightarrow> connectTunnelData \<Rightarrow> SyncMap" where
  "TunnelConnectJob_handle env connectedTunnels0 tunnelConnectData =
     (let connectedTunnels =
            (if ctd_action tunnelConnectData = ''connect'' then
               snd (TunnelConnnect env connectedTunnels0 (ctd_socket tunnelConnectData))
             else connectedTunnels0)
      in if ctd_action tunnelConnectData = ''disconnect'' then
           (case SyncMap_Get connectedTunnels (ctd_key tunnelConnectData) of
              Some session \<Rightarrow>
                SyncMap_Add (ctd_key tunnelConnectData) (Close session) connectedTunnels
            | None \<Rightarrow> connectedTunnels)
         else connectedTunnels)"

text \<open>
  The connector over time: reconciler ticks (\<^verbatim>\<open>HandleUpdates\<close> on a discovery
  result) and messages handled by the tunnel job, in any order, from the empty registry
  of \<^verbatim>\<open>NewConnectorCore\<close>.
\<close>

datatype operation = Tick "Socket list" | Handle TunnelEnv connectTunnelData

record connector_state =
  connectedTunnels_of :: SyncMap
  events_of :: "event list"

definition initial_state :: connector_state where
  "initial_state = \<lparr>connectedTunnels_of = [], events_of = []\<rparr>"

fun run :: "ConnectorCore \<Rightarrow> connector_state \<Rightarrow> operation list \<Rightarrow> connector_state" where
  "run c st [] = st"
| "run c st (Tick sockets # ops) =
     run c (st\<lparr>events_of := snd (HandleUpdates c (connectedTunnels_of st) (events_of st) sockets)\<rparr>)
       ops"
| "run c st (Handle env d # ops) =
     run c (st\<lparr>connectedTunnels_of := TunnelConnectJob_handle env (connectedTunnels_of st) d\<rparr>) ops"

text \<open>
  Which events are socket creations and socket deletions on the control plane, and which
  are connect messages on the channel.
\<close>

fun isCreate :: "event \<Rightarrow> bool" where
  "isCreate (CreateSocket s) = True"
| "isCreate e = False"

fun isDelete :: "event \<Rightarrow> bool" where
  "isDelete (DeleteSocket socketID) = True"
| "isDelete e = False"

text \<open>The key under which the reconciler indexes a socket whose ConnectorData is set.\<close>

definition socketKey :: "Socket \<Rightarrow> string" where
  "socketKey s = (case ConnectorData s of None \<Rightarrow> [] | Some cd \<Rightarrow> ConnectorData_Key cd)"

text \<open>
  Ownership as the delete pass tests it: the socket's ConnectorData names the configured
  connector and the active plugin.
\<close>

definition ownedBy :: "ConnectorCore \<Rightarrow> Socket \<Rightarrow> bool" where
  "ownedBy c s =
     (case ConnectorData s of
        None \<Rightarrow> False
      | Some cd \<Rightarrow>
          cd_Connector cd = cfg_Connector_Name c \<and> cd_PluginName cd = discovery_Name c)"

fun isConnect :: "event \<Rightarrow> bool" where
  "isConnect (Send d) = (ctd_action d = ''connect'')"
| "isConnect e = False"

text \<open>The zero value \<^verbatim>\<open>models.Socket{}\<close>.\<close>

definition Socket_zero :: Socket where
  "Socket_zero =
     \<lparr>SocketID = [], Name = [], Description = [], SocketType = [],
      AllowedEmailAddresses = [], AllowedEmailDomains = [], UpstreamUsername = [],
      UpstreamPassword = [], UpstreamHttpHostname = [], UpstreamType = [],
      CloudAuthEnabled = False, ConnectorAuthenticationEnabled = False,
      Tags = Mapping.empty, PolicyNames = [], Policies = [], TargetHostname = [],
      TargetPort = 0, PolicyGroup = [], Ec2Tag = [], InstanceId = [], PluginName = [],
      ManagedBy = [], ConnectorData = None\<rparr>"

text \<open>
  A control plane and a connector for the examples: the control plane holds the given
  sockets, accepts every call, and answers a creation with the socket it was sent under
  the id \<open>new\<close>.
\<close>

definition exampleAPI :: "Socket list \<Rightarrow> API" where
  "exampleAPI inventory =
     \<lparr>GetSockets_reply = (\<lambda>tr. Inr inventory),
      CreateSocket_reply = (\<lambda>tr s. Inr (s\<lparr>SocketID := ''new''\<rparr>)),
      UpdateSocket_reply = (\<lambda>tr socketID s. None),
      DeleteSocket_reply = (\<lambda>tr socketID. None)\<rparr>"

definition exampleCore :: "Socket list \<Rightarrow> ConnectorCore" where
  "exampleCore inventory =
     \<lparr>cfg_Connector_Name = ''c1'',
      discovery_Name = ''StaticSocketFinder'',
      metadata_Principal = ''token:t1'',
      border0API = exampleAPI inventory\<rparr>"

text \<open>
  The ConnectorData of the discovered socket \<open>db\<close> on port 3306 as this connector
  builds it, a server socket that carries a given ConnectorData in its tags, and the
  discovered socket itself.
\<close>

definition exampleData :: ConnectorData where
  "exampleData =
     \<lparr>cd_Name = ''db'', cd_Connector = ''c1'', cd_Type = [], cd_Port = 3306,
      cd_TargetHostname = [], cd_PolicyGroup = [], cd_Ec2Tag = [], cd_InstanceId = [],
      cd_PluginName = ''StaticSocketFinder'', cd_ManagedBy = ''token:t1''\<rparr>"

definition exampleServerSocket :: "ConnectorData \<Rightarrow> Socket" where
  "exampleServerSocket cd = Socket_zero\<lparr>SocketID := ''sid-1'', Tags := ConnectorData_Tags cd\<rparr>"

definition exampleDiscovered :: Socket where
  "exampleDiscovered = Socket_zero\<lparr>Name := ''db'', TargetPort := 3306\<rparr>"

text \<open>
  Surroundings of \<^verbatim>\<open>TunnelConnnect\<close> in which every step succeeds and the session
  stays open.
\<close>

definition exampleEnv :: TunnelEnv where
  "exampleEnv =
     \<lparr>NewConnection_result = \<lparr>conn_closed = False\<rparr>,
      GetUserIDFromAccessToken_result = Inr ''user-1'',
      GetOrganizationInfo_result = Inr \<lparr>Certificates = Map.empty\<rparr>,
      GetSocket_result = (\<lambda>socketID. Inr (exampleServerSocket exampleData)),
      AppendCertsFromPEM_result = (\<lambda>pem. True),
      Connect_result = (\<lambda>s. (None, \<lparr>conn_closed = False\<rparr>))\<rparr>"


section \<open>Properties\<close>

subsection \<open>Decimal printing and parsing\<close>

lemma digit_val_digit_char: "d < 10 \<Longrightarrow> digit_val (digit_char d) = Some d"
  by (simp add: digit_val_def digit_char_def Let_def)

lemma ParseUint_loop_append:
  "ParseUint_loop n (xs @ ys) =
     (case ParseUint_loop n xs of Uint m \<Rightarrow> ParseUint_loop m ys | e \<Rightarrow> e)"
  by (induction xs arbitrary: n) (auto split: option.splits)

lemma ParseUint_loop_digits:
  "n \<le> 2 ^ 64 - 1 \<Longrightarrow> ParseUint_loop 0 (digits n) = Uint n"
proof (induction n rule: digits.induct)
  case (1 n)
  show ?case
  proof (cases "n < 10")
    case True
    then show ?thesis by (subst digits.simps) (simp add: digit_val_digit_char)
  next
    case False
    have small: "n div 10 \<le> 2 ^ 64 - 1" using "1.prems" by simp
    have "ParseUint_loop 0 (digits (n div 10)) = Uint (n div 10)"
      using "1.IH" False small by simp
    moreover have "\<not> n div 10 \<ge> (2 ^ 64 - 1) div 10 + 1"
      using "1.prems" by simp
    moreover have "\<not> n div 10 * 10 + n mod 10 > 2 ^ 64 - 1"
      using "1.prems" by simp
    ultimately show ?thesis
      using False
      by (subst digits.simps) (simp add: ParseUint_loop_append digit_val_digit_char)
  qed
qed

lemma digits_nonempty: "digits n \<noteq> []"
  by (subst digits.simps) simp

lemma hd_digits_digit: "\<exists>d < 10. hd (digits n) = digit_char d"
proof (induction n rule: digits.induct)
  case (1 n)
  show ?case
  proof (cases "n < 10")
    case True
    then show ?thesis by (subst digits.simps) auto
  next
    case False
    with 1 obtain d where "d < 10" "hd (digits (n div 10)) = digit_char d" by auto
    with False show ?thesis
      by (subst digits.simps) (auto simp: digits_nonempty)
  qed
qed

lemma digit_char_not_sign:
  "d < 10 \<Longrightarrow> digit_char d \<noteq> CHR ''-'' \<and> digit_char d \<noteq> CHR ''+''"
  using digit_val_digit_char[of d] by (auto simp: digit_val_def Let_def)

lemma ParseInt_digits:
  assumes "n \<le> 2 ^ 63 - 1"
  shows "ParseInt (digits n) = int n"
proof -
  obtain c cs where eq: "digits n = c # cs"
    using digits_nonempty[of n] by (cases "digits n") auto
  obtain d where "d < 10" "c = digit_char d"
    using hd_digits_digit[of n] eq by auto
  then have sign: "c \<noteq> CHR ''-''" "c \<noteq> CHR ''+''" using digit_char_not_sign by auto
  have "ParseUint (c # cs) = Uint n"
    using ParseUint_loop_digits[of n] assms eq by (simp add: ParseUint_def)
  then show ?thesis
    using sign assms by (simp add: ParseInt_def eq Let_def)
qed

lemma ParseInt_neg:
  assumes "n \<le> 2 ^ 63"
  shows "ParseInt (CHR ''-'' # digits n) = - int n"
proof -
  have "ParseUint (digits n) = Uint n"
    using ParseUint_loop_digits[of n] assms by (simp add: ParseUint_def digits_nonempty)
  then show ?thesis
    using assms by (simp add: ParseInt_def Let_def)
qed

lemma Atoi_Itoa: "Atoi (Itoa w) = w"
proof -
  have lo: "- (2 ^ 63) \<le> sint w" using sint_ge[of w] by simp
  have hi: "sint w \<le> 2 ^ 63 - 1" using sint_lt[of w] by simp
  show ?thesis
  proof (cases "sint w < 0")
    case True
    have "nat (- sint w) \<le> 2 ^ 63" using lo by simp
    then have "ParseInt (Itoa w) = sint w"
      using True by (simp add: Itoa_def ParseInt_neg)
    then show ?thesis by (simp add: Atoi_def)
  next
    case False
    have "nat (sint w) \<le> 2 ^ 63 - 1" using hi False by simp
    then have "ParseInt (Itoa w) = sint w"
      using False by (simp add: Itoa_def ParseInt_digits)
    then show ?thesis by (simp add: Atoi_def)
  qed
qed

subsection \<open>Tags and ConnectorData\<close>

lemma tag_update: "tag (Mapping.update k v m) k' = (if k = k' then v else tag m k')"
  by (simp add: tag_def lookup_default_update')

lemma tag_empty: "tag Mapping.empty k = []"
  by (simp add: tag_def lookup_default_empty)

lemma Tags_not_empty: "\<not> Mapping.is_empty (ConnectorData_Tags c)"
  by (simp add: ConnectorData_Tags_def Let_def)

lemma BuildConnectorDataByTags_from_Tags:
  assumes "Tags s = ConnectorData_Tags c"
  shows "BuildConnectorDataByTags s = s\<lparr>ConnectorData := Some c\<rparr>"
proof -
  have fields:
    "tag (ConnectorData_Tags c) ''name'' = cd_Name c"
    "tag (ConnectorData_Tags c) ''connector_name'' = cd_Connector c"
    "tag (ConnectorData_Tags c) ''type'' = cd_Type c"
    "tag (ConnectorData_Tags c) ''target_port'' = Itoa (cd_Port c)"
    "tag (ConnectorData_Tags c) ''target_hostname'' = cd_TargetHostname c"
    "tag (ConnectorData_Tags c) ''policy_group'' = cd_PolicyGroup c"
    "tag (ConnectorData_Tags c) ''ec2_tag'' = cd_Ec2Tag c"
    "tag (ConnectorData_Tags c) ''instance_id'' = cd_InstanceId c"
    "tag (ConnectorData_Tags c) ''plugin_name'' = cd_PluginName c"
    "tag (ConnectorData_Tags c) tagKeyManagedBy = cd_ManagedBy c"
    by (simp_all add: ConnectorData_Tags_def Let_def tag_update tag_empty tagKeyManagedBy_def)
  show ?thesis
    by (simp add: BuildConnectorDataByTags_def assms Tags_not_empty fields Atoi_Itoa Let_def)
qed

text \<open>
  Claim C1. Writing a ConnectorData \<open>c\<close> into a socket's tags with
  \<^verbatim>\<open>ConnectorData.Tags\<close> and rebuilding the socket's ConnectorData with
  \<^verbatim>\<open>BuildConnectorDataByTags\<close> gives back \<open>c\<close>, field for field: the port
  through its decimal string, and an empty ManagedBy, which is left out of the tags, as
  the empty string again. Nothing else of the socket changes.
\<close>

theorem tags_connector_data_roundtrip:
  "BuildConnectorDataByTags (s\<lparr>Tags := ConnectorData_Tags c\<rparr>) =
     s\<lparr>Tags := ConnectorData_Tags c, ConnectorData := Some c\<rparr>"
  using BuildConnectorDataByTags_from_Tags [of "s\<lparr>Tags := ConnectorData_Tags c\<rparr>" c]
  by simp

subsection \<open>Type inference\<close>

text \<open>
  Claim C2, as stated, fails: the port table is consulted only when the socket type is
  empty. A socket with socket type ssh, target port 3306 and no upstream type gets the
  upstream type http, not mysql.
\<close>

theorem type_inference_port_needs_empty_type:
  "UpstreamType (Socket_zero\<lparr>SocketType := ''ssh'', TargetPort := 3306\<rparr>) = [] \<and>
   UpstreamType (SetupTypeAndUpstreamTypeByPortOrTags
                   (Socket_zero\<lparr>SocketType := ''ssh'', TargetPort := 3306\<rparr>)) = ''http'' \<and>
   ''http'' \<noteq> ''mysql''"
  by (simp add: SetupTypeAndUpstreamTypeByPortOrTags_def Socket_zero_def)

text \<open>
  Claim C2, amended. For a socket with empty upstream type the inference is decided by
  the socket type first and by the target port only where the code consults it.
  With empty socket type: port 3306 gives (database, mysql), 5432 gives
  (database, postgres), 22 gives socket type ssh with upstream type http, 80 gives
  (http, http), 443 gives (http, https), and any other port leaves the socket type empty
  with upstream type http. Socket type mysql or postgres becomes database with the former
  socket type as upstream type, whatever the port. Socket type database keeps its type and
  gets upstream type mysql on port 3306, postgres on 5432 and http on any other port.
  Socket type https becomes (http, https). Every other socket type is kept and gets
  upstream type http, whatever the port. No other field changes.
\<close>

theorem type_inference_table:
  assumes "UpstreamType s = []"
  shows
    "(SocketType s = [] \<and> TargetPort s = 3306 \<longrightarrow>
        SetupTypeAndUpstreamTypeByPortOrTags s =
          s\<lparr>SocketType := ''database'', UpstreamType := ''mysql''\<rparr>) \<and>
     (SocketType s = [] \<and> TargetPort s = 5432 \<longrightarrow>
        SetupTypeAndUpstreamTypeByPortOrTags s =
          s\<lparr>SocketType := ''database'', UpstreamType := ''postgres''\<rparr>) \<and>
     (SocketType s = [] \<and> TargetPort s = 22 \<longrightarrow>
        SetupTypeAndUpstreamTypeByPortOrTags s =
          s\<lparr>SocketType := ''ssh'', UpstreamType := ''http''\<rparr>) \<and>
     (SocketType s = [] \<and> TargetPort s = 80 \<longrightarrow>
        SetupTypeAndUpstreamTypeByPortOrTags s =
          s\<lparr>SocketType := ''http'', UpstreamType := ''http''\<rparr>) \<and>
     (SocketType s = [] \<and> TargetPort s = 443 \<longrightarrow>
        SetupTypeAndUpstreamTypeByPortOrTags s =
          s\<lparr>SocketType := ''http'', UpstreamType := ''https''\<rparr>) \<and>
     (SocketType s = [] \<and> TargetPort s \<notin> {3306, 5432, 22, 80, 443} \<longrightarrow>
        SetupTypeAndUpstreamTypeByPortOrTags s = s\<lparr>UpstreamType := ''http''\<rparr>) \<and>
     (SocketType s = ''mysql'' \<longrightarrow>
        SetupTypeAndUpstreamTypeByPortOrTags s =
          s\<lparr>SocketType := ''database'', UpstreamType := ''mysql''\<rparr>) \<and>
     (SocketType s = ''postgres'' \<longrightarrow>
        SetupTypeAndUpstreamTypeByPortOrTags s =
          s\<lparr>SocketType := ''database'', UpstreamType := ''postgres''\<rparr>) \<and>
     (SocketType s = ''database'' \<and> TargetPort s = 3306 \<longrightarrow>
        SetupTypeAndUpstreamTypeByPortOrTags s = s\<lparr>UpstreamType := ''mysql''\<rparr>) \<and>
     (SocketType s = ''database'' \<and> TargetPort s = 5432 \<longrightarrow>
        SetupTypeAndUpstreamTypeByPortOrTags s = s\<lparr>UpstreamType := ''postgres''\<rparr>) \<and>
     (SocketType s = ''database'' \<and> TargetPort s \<notin> {3306, 5432} \<longrightarrow>
        SetupTypeAndUpstreamTypeByPortOrTags s = s\<lparr>UpstreamType := ''http''\<rparr>) \<and>
     (SocketType s = ''https'' \<longrightarrow>
        SetupTypeAndUpstreamTypeByPortOrTags s =
          s\<lparr>SocketType := ''http'', UpstreamType := ''https''\<rparr>) \<and>
     (SocketType s \<notin> {[], ''mysql'', ''postgres'', ''database'', ''https''} \<longrightarrow>
        SetupTypeAndUpstreamTypeByPortOrTags s = s\<lparr>UpstreamType := ''http''\<rparr>)"
  using assms by (simp add: SetupTypeAndUpstreamTypeByPortOrTags_def)

theorem type_inference_table_witness:
  "SetupTypeAndUpstreamTypeByPortOrTags (Socket_zero\<lparr>TargetPort := 3306\<rparr>) =
     Socket_zero\<lparr>TargetPort := 3306, SocketType := ''database'', UpstreamType := ''mysql''\<rparr> \<and>
   SetupTypeAndUpstreamTypeByPortOrTags (Socket_zero\<lparr>TargetPort := 5432\<rparr>) =
     Socket_zero\<lparr>TargetPort := 5432, SocketType := ''database'', UpstreamType := ''postgres''\<rparr> \<and>
   SetupTypeAndUpstreamTypeByPortOrTags (Socket_zero\<lparr>TargetPort := 22\<rparr>) =
     Socket_zero\<lparr>TargetPort := 22, SocketType := ''ssh'', UpstreamType := ''http''\<rparr> \<and>
   SetupTypeAndUpstreamTypeByPortOrTags (Socket_zero\<lparr>TargetPort := 80\<rparr>) =
     Socket_zero\<lparr>TargetPort := 80, SocketType := ''http'', UpstreamType := ''http''\<rparr> \<and>
   SetupTypeAndUpstreamTypeByPortOrTags (Socket_zero\<lparr>TargetPort := 443\<rparr>) =
     Socket_zero\<lparr>TargetPort := 443, SocketType := ''http'', UpstreamType := ''https''\<rparr> \<and>
   SetupTypeAndUpstreamTypeByPortOrTags (Socket_zero\<lparr>TargetPort := 8080\<rparr>) =
     Socket_zero\<lparr>TargetPort := 8080, UpstreamType := ''http''\<rparr> \<and>
   SetupTypeAndUpstreamTypeByPortOrTags (Socket_zero\<lparr>SocketType := ''mysql'', TargetPort := 7\<rparr>) =
     Socket_zero\<lparr>TargetPort := 7, SocketType := ''database'', UpstreamType := ''mysql''\<rparr> \<and>
   SetupTypeAndUpstreamTypeByPortOrTags (Socket_zero\<lparr>SocketType := ''postgres'', TargetPort := 7\<rparr>) =
     Socket_zero\<lparr>TargetPort := 7, SocketType := ''database'', UpstreamType := ''postgres''\<rparr> \<and>
   SetupTypeAndUpstreamTypeByPortOrTags (Socket_zero\<lparr>SocketType := ''database'', TargetPort := 3306\<rparr>) =
     Socket_zero\<lparr>TargetPort := 3306, SocketType := ''database'', UpstreamType := ''mysql''\<rparr> \<and>
   SetupTypeAndUpstreamTypeByPortOrTags (Socket_zero\<lparr>SocketType := ''database'', TargetPort := 5432\<rparr>) =
     Socket_zero\<lparr>TargetPort := 5432, SocketType := ''database'', UpstreamType := ''postgres''\<rparr> \<and>
   SetupTypeAndUpstreamTypeByPortOrTags (Socket_zero\<lparr>SocketType := ''database'', TargetPort := 22\<rparr>) =
     Socket_zero\<lparr>TargetPort := 22, SocketType := ''database'', UpstreamType := ''http''\<rparr> \<and>
   SetupTypeAndUpstreamTypeByPortOrTags (Socket_zero\<lparr>SocketType := ''https'', TargetPort := 22\<rparr>) =
     Socket_zero\<lparr>TargetPort := 22, SocketType := ''http'', UpstreamType := ''https''\<rparr> \<and>
   SetupTypeAndUpstreamTypeByPortOrTags (Socket_zero\<lparr>SocketType := ''tls'', TargetPort := 3306\<rparr>) =
     Socket_zero\<lparr>TargetPort := 3306, SocketType := ''tls'', UpstreamType := ''http''\<rparr>"
  using type_inference_table [of "Socket_zero\<lparr>TargetPort := 3306\<rparr>"]
        type_inference_table [of "Socket_zero\<lparr>TargetPort := 5432\<rparr>"]
        type_inference_table [of "Socket_zero\<lparr>TargetPort := 22\<rparr>"]
        type_inference_table [of "Socket_zero\<lparr>TargetPort := 80\<rparr>"]
        type_inference_table [of "Socket_zero\<lparr>TargetPort := 443\<rparr>"]
        type_inference_table [of "Socket_zero\<lparr>TargetPort := 8080\<rparr>"]
        type_inference_table [of "Socket_zero\<lparr>SocketType := ''mysql'', TargetPort := 7\<rparr>"]
        type_inference_table [of "Socket_zero\<lparr>SocketType := ''postgres'', TargetPort := 7\<rparr>"]
        type_inference_table [of "Socket_zero\<lparr>SocketType := ''database'', TargetPort := 3306\<rparr>"]
        type_inference_table [of "Socket_zero\<lparr>SocketType := ''database'', TargetPort := 5432\<rparr>"]
        type_inference_table [of "Socket_zero\<lparr>SocketType := ''database'', TargetPort := 22\<rparr>"]
        type_inference_table [of "Socket_zero\<lparr>SocketType := ''https'', TargetPort := 22\<rparr>"]
        type_inference_table [of "Socket_zero\<lparr>SocketType := ''tls'', TargetPort := 3306\<rparr>"]
  by (simp add: Socket_zero_def)

subsection \<open>Comparing string slices\<close>

lemma elementsEqual_iff: "length a = length b \<Longrightarrow> elementsEqual a b \<longleftrightarrow> a = b"
  by (induction a b rule: elementsEqual.induct) auto

lemma sort_eq_iff_mset: "sort (a :: string list) = sort b \<longleftrightarrow> mset a = mset b"
proof
  assume "sort a = sort b"
  then have "mset (sort a) = mset (sort b)" by simp
  then show "mset a = mset b" by simp
next
  assume "mset a = mset b"
  then show "sort a = sort b"
    by (simp add: properties_for_sort)
qed

lemma sort_sort: "sort (sort (xs :: string list)) = sort xs"
  by (simp add: sorted_sort_id)

lemma stringSlicesEqual_eq:
  "stringSlicesEqual a b = (mset a = mset b, sort a, sort b)"
proof (cases "length a = length b")
  case True
  then have "length (sort a) = length (sort b)" by simp
  then show ?thesis
    by (simp add: stringSlicesEqual_def Let_def elementsEqual_iff sort_eq_iff_mset)
next
  case False
  then have "mset a \<noteq> mset b" by (metis size_mset)
  with False show ?thesis
    by (simp add: stringSlicesEqual_def Let_def)
qed

lemma trackedSlicesCheck_eq:
  "trackedSlicesCheck a l =
     (let E = (mset (AllowedEmailAddresses a) = mset (AllowedEmailAddresses l));
          D = (mset (AllowedEmailDomains a) = mset (AllowedEmailDomains l));
          P = (mset (PolicyNames a) = mset (PolicyNames l))
      in (E \<and> D \<and> P,
          a\<lparr>AllowedEmailAddresses := sort (AllowedEmailAddresses a),
            AllowedEmailDomains :=
              (if E then sort (AllowedEmailDomains a) else AllowedEmailDomains a),
            PolicyNames := (if E \<and> D then sort (PolicyNames a) else PolicyNames a)\<rparr>,
          l\<lparr>AllowedEmailAddresses := sort (AllowedEmailAddresses l),
            AllowedEmailDomains :=
              (if E then sort (AllowedEmailDomains l) else AllowedEmailDomains l),
            PolicyNames := (if E \<and> D then sort (PolicyNames l) else PolicyNames l)\<rparr>))"
  by (auto simp: trackedSlicesCheck_def stringSlicesEqual_eq Let_def sort_sort)

text \<open>
  Claim C6, as stated, fails: the comparison sorts and then compares element by element,
  so it tells apart two slices with the same set of strings when a string is repeated.
\<close>

theorem slices_equal_not_set_equality:
  "set [''a'', ''a''] = set [''a''] \<and> fst (stringSlicesEqual [''a'', ''a''] [''a'']) = False"
  by (simp add: stringSlicesEqual_def)

text \<open>
  Claim C6, amended. \<^verbatim>\<open>stringSlicesEqual\<close> reports equal exactly when the two slices
  hold the same strings with the same multiplicities. The guard of
  \<^verbatim>\<open>CheckAndUpdateSocket\<close> is true exactly when the allowed email addresses, the
  allowed email domains and the policy names agree in that sense; when both policy-name
  slices are empty the policy comparison is skipped and the guard is decided by the two
  email lists alone.
\<close>

theorem slices_equal_iff_multiset_equal:
  "(fst (stringSlicesEqual a b) \<longleftrightarrow> mset a = mset b) \<and>
   (fst (trackedSlicesCheck apiSocket localSocket) \<longleftrightarrow>
      mset (AllowedEmailAddresses apiSocket) = mset (AllowedEmailAddresses localSocket) \<and>
      mset (AllowedEmailDomains apiSocket) = mset (AllowedEmailDomains localSocket) \<and>
      mset (PolicyNames apiSocket) = mset (PolicyNames localSocket)) \<and>
   (PolicyNames apiSocket = [] \<and> PolicyNames localSocket = [] \<longrightarrow>
      (fst (trackedSlicesCheck apiSocket localSocket) \<longleftrightarrow>
         mset (AllowedEmailAddresses apiSocket) = mset (AllowedEmailAddresses localSocket) \<and>
         mset (AllowedEmailDomains apiSocket) = mset (AllowedEmailDomains localSocket)))"
  by (simp add: stringSlicesEqual_eq trackedSlicesCheck_eq Let_def)

theorem slices_equal_iff_multiset_equal_witness:
  "fst (stringSlicesEqual [''b'', ''a''] [''a'', ''b'']) \<and>
   PolicyNames Socket_zero = [] \<and>
   fst (trackedSlicesCheck (Socket_zero\<lparr>AllowedEmailDomains := [''y'', ''x'']\<rparr>)
                           (Socket_zero\<lparr>AllowedEmailDomains := [''x'', ''y'']\<rparr>))"
  using slices_equal_iff_multiset_equal
          [of "[''b'', ''a'']" "[''a'', ''b'']"
              "Socket_zero\<lparr>AllowedEmailDomains := [''y'', ''x'']\<rparr>"
              "Socket_zero\<lparr>AllowedEmailDomains := [''x'', ''y'']\<rparr>"]
  by (simp add: Socket_zero_def)

text \<open>
  Claim C10, as stated, fails: the calls are chained with a short-circuit conjunction,
  so after a mismatch of the email addresses the email domains are never compared and
  stay as they were. Here the local socket's domains are left in the order z, y.
\<close>

theorem comparison_skips_domains_after_email_mismatch:
  "(case CheckAndUpdateSocket (exampleCore []) []
           (Socket_zero\<lparr>AllowedEmailAddresses := [''a'']\<rparr>)
           (Socket_zero\<lparr>AllowedEmailAddresses := [''b''], AllowedEmailDomains := [''z'', ''y'']\<rparr>)
    of (r, tr, apiMem, localMem) \<Rightarrow>
      AllowedEmailDomains localMem = [''z'', ''y''] \<and> sort [''z'', ''y''] = [''y'', ''z''])"
  by (simp add: CheckAndUpdateSocket_def trackedSlicesCheck_def stringSlicesEqual_def
      Socket_zero_def exampleCore_def exampleAPI_def Let_def)

text \<open>
  Claim C10, amended. \<^verbatim>\<open>stringSlicesEqual\<close> leaves both of its slices sorted.
  After \<^verbatim>\<open>CheckAndUpdateSocket\<close> the allowed email addresses of both sockets are
  sorted in the caller's memory; the allowed email domains are sorted when the email
  addresses agree; the policy names are sorted when the email addresses and the email
  domains agree. When no tracked field diverges, no event is issued, and all three slices
  of both sockets are left sorted.
\<close>

theorem comparison_sorts_slices_in_place:
  "snd (stringSlicesEqual x y) = (sort x, sort y) \<and>
   (case CheckAndUpdateSocket c tr apiSocket localSocket of (r, tr', apiMem, localMem) \<Rightarrow>
      AllowedEmailAddresses apiMem = sort (AllowedEmailAddresses apiSocket) \<and>
      AllowedEmailAddresses localMem = sort (AllowedEmailAddresses localSocket) \<and>
      (mset (AllowedEmailAddresses apiSocket) = mset (AllowedEmailAddresses localSocket) \<longrightarrow>
         AllowedEmailDomains apiMem = sort (AllowedEmailDomains apiSocket) \<and>
         AllowedEmailDomains localMem = sort (AllowedEmailDomains localSocket)) \<and>
      (mset (AllowedEmailAddresses apiSocket) = mset (AllowedEmailAddresses localSocket) \<and>
       mset (AllowedEmailDomains apiSocket) = mset (AllowedEmailDomains localSocket) \<longrightarrow>
         PolicyNames apiMem = sort (PolicyNames apiSocket) \<and>
         PolicyNames localMem = sort (PolicyNames localSocket)) \<and>
      (mset (AllowedEmailAddresses apiSocket) = mset (AllowedEmailAddresses localSocket) \<and>
       mset (AllowedEmailDomains apiSocket) = mset (AllowedEmailDomains localSocket) \<and>
       mset (PolicyNames apiSocket) = mset (PolicyNames localSocket) \<and>
       UpstreamHttpHostname apiSocket = UpstreamHttpHostname localSocket \<and>
       UpstreamUsername apiSocket = UpstreamUsername localSocket \<and>
       UpstreamType apiSocket = UpstreamType localSocket \<and>
       ConnectorAuthenticationEnabled apiSocket = ConnectorAuthenticationEnabled localSocket \<longrightarrow>
         tr' = tr \<and> r = Inr apiMem \<and>
         apiMem = apiSocket\<lparr>AllowedEmailAddresses := sort (AllowedEmailAddresses apiSocket),
                            AllowedEmailDomains := sort (AllowedEmailDomains apiSocket),
                            PolicyNames := sort (PolicyNames apiSocket)\<rparr> \<and>
         localMem = localSocket\<lparr>AllowedEmailAddresses := sort (AllowedEmailAddresses localSocket),
                                AllowedEmailDomains := sort (AllowedEmailDomains localSocket),
                                PolicyNames := sort (PolicyNames localSocket)\<rparr>))"
  by (simp add: stringSlicesEqual_eq CheckAndUpdateSocket_def trackedSlicesCheck_eq Let_def
      split: option.splits)

theorem comparison_sorts_slices_in_place_witness:
  "(case CheckAndUpdateSocket (exampleCore []) []
           (Socket_zero\<lparr>AllowedEmailAddresses := [''b'', ''a'']\<rparr>)
           (Socket_zero\<lparr>AllowedEmailAddresses := [''a'', ''b''], PolicyNames := []\<rparr>)
    of (r, tr', apiMem, localMem) \<Rightarrow>
      tr' = [] \<and> AllowedEmailAddresses apiMem = [''a'', ''b''] \<and>
      AllowedEmailAddresses localMem = [''a'', ''b''] \<and> r = Inr apiMem)"
  using comparison_sorts_slices_in_place
          [where x = "[]" and y = "[]" and c = "exampleCore []" and tr = "[]"
             and apiSocket = "Socket_zero\<lparr>AllowedEmailAddresses := [''b'', ''a'']\<rparr>"
             and localSocket =
               "Socket_zero\<lparr>AllowedEmailAddresses := [''a'', ''b''], PolicyNames := []\<rparr>"]
  by (cases "CheckAndUpdateSocket (exampleCore []) []
           (Socket_zero\<lparr>AllowedEmailAddresses := [''b'', ''a'']\<rparr>)
           (Socket_zero\<lparr>AllowedEmailAddresses := [''a'', ''b''], PolicyNames := []\<rparr>)")
     (simp add: Socket_zero_def)

subsection \<open>Updating a socket in place\<close>






subsection \<open>Events of the reconciler's passes\<close>

lemma CreateSocketAndTunnel_trace:
  "\<exists>ev. snd (CreateSocketAndTunnel c tr s) = tr @ CreateSocket (withDescription c s) # ev \<and>
        (\<forall>e \<in> set ev. \<not> isDelete e \<and> \<not> isCreate e \<and> \<not> isConnect e)"
  by (simp add: CreateSocketAndTunnel_def Let_def split: sum.splits)

lemma RecreateSocket_trace:
  "\<exists>ev. snd (RecreateSocket c tr socketID s) = tr @ DeleteSocket socketID # ev \<and>
        (\<forall>e \<in> set ev. \<not> isDelete e \<and> \<not> isConnect e) \<and>
        (\<forall>r. fst (RecreateSocket c tr socketID s) = Inr r \<longrightarrow>
           (\<exists>ev'. ev = CreateSocket (withDescription c s) # ev'))"
proof (cases "DeleteSocket_reply (border0API c) tr socketID")
  case (Some err)
  then show ?thesis by (simp add: RecreateSocket_def)
next
  case None
  obtain ev where ev: "snd (CreateSocketAndTunnel c (tr @ [DeleteSocket socketID]) s) =
      (tr @ [DeleteSocket socketID]) @ CreateSocket (withDescription c s) # ev"
    "\<forall>e \<in> set ev. \<not> isDelete e \<and> \<not> isCreate e \<and> \<not> isConnect e"
    using CreateSocketAndTunnel_trace[of c "tr @ [DeleteSocket socketID]" s] by blast
  obtain r tr' where eq: "CreateSocketAndTunnel c (tr @ [DeleteSocket socketID]) s = (r, tr')"
    by (cases "CreateSocketAndTunnel c (tr @ [DeleteSocket socketID]) s") auto
  with ev have tr': "tr' = tr @ DeleteSocket socketID # CreateSocket (withDescription c s) # ev"
    by simp
  show ?thesis
    using None eq tr' ev(2)
    by (cases r) (auto simp: RecreateSocket_def)
qed

lemma CheckAndUpdateSocket_trace:
  "\<exists>ev. fst (snd (CheckAndUpdateSocket c tr a l)) = tr @ ev \<and>
        (\<forall>e \<in> set ev. \<not> isDelete e \<and> \<not> isCreate e \<and> \<not> isConnect e)"
  by (simp add: CheckAndUpdateSocket_def Let_def split: prod.splits option.splits)


lemma deleteStep_skip:
  assumes "ConnectorData a = Some acd" "ConnectorData_Key acd = []"
  shows "deleteStep c tr a m = (None, m, tr)"
  using assms by (simp add: deleteStep_def)

lemma deleteStep_same:
  assumes "ConnectorData a = Some acd" "ConnectorData_Key acd \<noteq> []"
    "m (ConnectorData_Key acd) = Some s" "ConnectorData s = Some acd"
  shows "deleteStep c tr a m = (None, m, tr)"
  using assms by (simp add: deleteStep_def)

lemma deleteStep_foreign:
  assumes "ConnectorData a = Some acd" "ConnectorData_Key acd \<noteq> []"
    "m (ConnectorData_Key acd) = None"
    "\<not> (cd_Connector acd = cfg_Connector_Name c \<and> cd_PluginName acd = discovery_Name c)"
  shows "deleteStep c tr a m = (None, m, tr)"
  using assms by (auto simp: deleteStep_def)

lemma deleteStep_owned_unmatched:
  assumes "ConnectorData a = Some acd" "ConnectorData_Key acd \<noteq> []"
    "m (ConnectorData_Key acd) = None"
    "cd_Connector acd = cfg_Connector_Name c" "cd_PluginName acd = discovery_Name c"
  shows "deleteStep c tr a m =
    (DeleteSocket_reply (border0API c)
       (tr @ [Send \<lparr>ctd_key = ConnectorData_Key acd, ctd_socket = a,
                      ctd_action = ''disconnect''\<rparr>]) (SocketID a),
     m,
     tr @ [Send \<lparr>ctd_key = ConnectorData_Key acd, ctd_socket = a, ctd_action = ''disconnect''\<rparr>,
           DeleteSocket (SocketID a)])"
  using assms by (simp add: deleteStep_def Let_def split: option.splits)

lemma deleteStep_recreate:
  assumes "ConnectorData a = Some acd" "ConnectorData_Key acd \<noteq> []"
    "m (ConnectorData_Key acd) = Some s" "ConnectorData s = Some scd" "scd \<noteq> acd"
  shows "deleteStep c tr a m =
    (case RecreateSocket c tr (SocketID a) s of
       (Inl err, tr') \<Rightarrow> (Some err, m, tr')
     | (Inr createdSocket, tr') \<Rightarrow> (None, m(ConnectorData_Key acd \<mapsto> createdSocket), tr'))"
  using assms by (simp add: deleteStep_def)

lemma deleteStep_general:
  "\<exists>ev. snd (snd (deleteStep c tr a m)) = tr @ ev \<and>
        (\<forall>e \<in> set ev. \<not> isConnect e) \<and>
        dom (fst (snd (deleteStep c tr a m))) = dom m"
proof (cases "ConnectorData a")
  case None
  then show ?thesis by (simp add: deleteStep_def)
next
  case (Some acd)
  show ?thesis
  proof (cases "ConnectorData_Key acd = []")
    case True
    then show ?thesis using deleteStep_skip[where a = a and acd = acd and m = m and c = c and tr = tr] Some
      by simp
  next
    case keyed: False
    show ?thesis
    proof (cases "m (ConnectorData_Key acd)")
      case None
      then show ?thesis
        using Some keyed
        by (cases "cd_Connector acd = cfg_Connector_Name c \<and> cd_PluginName acd = discovery_Name c")
           (simp_all add: deleteStep_owned_unmatched deleteStep_foreign)
    next
      case found: (Some s)
      show ?thesis
      proof (cases "ConnectorData s")
        case None
        then show ?thesis using Some keyed found by (simp add: deleteStep_def)
      next
        case scd: (Some scd)
        show ?thesis
        proof (cases "scd = acd")
          case True
          then show ?thesis
            using deleteStep_same[where a = a and acd = acd and m = m and s = s
                    and c = c and tr = tr] Some keyed found scd by simp
        next
          case False
          obtain r tr' where rec: "RecreateSocket c tr (SocketID a) s = (r, tr')"
            by (cases "RecreateSocket c tr (SocketID a) s") auto
          obtain ev where ev: "tr' = tr @ DeleteSocket (SocketID a) # ev"
            "\<forall>e \<in> set ev. \<not> isDelete e \<and> \<not> isConnect e"
            using RecreateSocket_trace[of c tr "SocketID a" s] rec by auto
          have "dom (m(ConnectorData_Key acd \<mapsto> x)) = dom m" for x
            using found by auto
          then show ?thesis
            using deleteStep_recreate[where a = a and acd = acd and m = m and s = s
                    and scd = scd and c = c and tr = tr] Some keyed found scd False rec ev
            by (cases r) auto
        qed
      qed
    qed
  qed
qed


lemma CheckSocketsToDelete_general:
  "\<exists>ev. snd (snd (CheckSocketsToDelete c tr xs m)) = tr @ ev \<and>
        (\<forall>e \<in> set ev. \<not> isConnect e) \<and>
        dom (fst (snd (CheckSocketsToDelete c tr xs m))) = dom m"
proof (induction xs arbitrary: tr m)
  case Nil
  then show ?case by simp
next
  case (Cons a xs)
  obtain r m1 tr1 where step: "deleteStep c tr a m = (r, m1, tr1)"
    by (cases "deleteStep c tr a m") auto
  obtain ev1 where ev1: "tr1 = tr @ ev1" "\<forall>e \<in> set ev1. \<not> isConnect e" "dom m1 = dom m"
    using deleteStep_general[of c tr a m] step by auto
  show ?case
  proof (cases r)
    case (Some err)
    then show ?thesis using step ev1 by simp
  next
    case None
    obtain ev2 where ev2: "snd (snd (CheckSocketsToDelete c tr1 xs m1)) = tr1 @ ev2"
      "\<forall>e \<in> set ev2. \<not> isConnect e"
      "dom (fst (snd (CheckSocketsToDelete c tr1 xs m1))) = dom m1"
      using Cons.IH[of tr1 m1] by auto
    have "snd (snd (CheckSocketsToDelete c tr (a # xs) m)) = tr @ (ev1 @ ev2)"
      using step None ev1(1) ev2(1) by simp
    moreover have "\<forall>e \<in> set (ev1 @ ev2). \<not> isConnect e"
      using ev1(2) ev2(2) by auto
    moreover have "dom (fst (snd (CheckSocketsToDelete c tr (a # xs) m))) = dom m"
      using step None ev1(3) ev2(3) by simp
    ultimately show ?thesis by blast
  qed
qed


lemma CheckSocketsToDelete_agree:
  assumes "\<forall>a \<in> set xs. \<exists>acd. ConnectorData a = Some acd \<and>
             (ConnectorData_Key acd = [] \<or>
              (\<exists>s. m (ConnectorData_Key acd) = Some s \<and> ConnectorData s = Some acd) \<or>
              (m (ConnectorData_Key acd) = None \<and>
               \<not> (cd_Connector acd = cfg_Connector_Name c \<and>
                    cd_PluginName acd = discovery_Name c)))"
  shows "CheckSocketsToDelete c tr xs m = (None, m, tr)"
  using assms
proof (induction xs)
  case Nil
  then show ?case by simp
next
  case (Cons x xs)
  then obtain acd where acd: "ConnectorData x = Some acd"
    "ConnectorData_Key acd = [] \<or>
     (\<exists>s. m (ConnectorData_Key acd) = Some s \<and> ConnectorData s = Some acd) \<or>
     (m (ConnectorData_Key acd) = None \<and>
      \<not> (cd_Connector acd = cfg_Connector_Name c \<and> cd_PluginName acd = discovery_Name c))"
    by auto
  have "deleteStep c tr x m = (None, m, tr)"
  proof (cases "ConnectorData_Key acd = []")
    case True
    then show ?thesis
      using deleteStep_skip[where a = x and acd = acd and m = m and c = c and tr = tr] acd(1)
      by simp
  next
    case False
    with acd(2) consider
      s where "m (ConnectorData_Key acd) = Some s" "ConnectorData s = Some acd"
      | "m (ConnectorData_Key acd) = None"
        "\<not> (cd_Connector acd = cfg_Connector_Name c \<and> cd_PluginName acd = discovery_Name c)"
      by auto
    then show ?thesis
    proof cases
      case 1
      then show ?thesis
        using deleteStep_same[where a = x and acd = acd and m = m and s = s and c = c and tr = tr]
          acd(1) False by simp
    next
      case 2
      then show ?thesis
        using deleteStep_foreign[where a = x and acd = acd and m = m and c = c and tr = tr]
          acd(1) False by simp
    qed
  qed
  moreover have "CheckSocketsToDelete c tr xs m = (None, m, tr)"
    using Cons by simp
  ultimately show ?case by simp
qed

lemma createStep_unmatched:
  assumes "ConnectorData l = Some lcd" "m (ConnectorData_Key lcd) = None"
  shows "\<exists>ev. snd (snd (createStep c tr l m)) = tr @ CreateSocket (withDescription c l) # ev \<and>
          (\<forall>e \<in> set ev. \<not> isDelete e \<and> \<not> isCreate e \<and> \<not> isConnect e) \<and>
          fst (snd (createStep c tr l m)) = m"
proof -
  obtain r tr' where eq: "CreateSocketAndTunnel c tr l = (r, tr')"
    by (cases "CreateSocketAndTunnel c tr l") auto
  obtain ev where ev: "tr' = tr @ CreateSocket (withDescription c l) # ev"
    "\<forall>e \<in> set ev. \<not> isDelete e \<and> \<not> isCreate e \<and> \<not> isConnect e"
    using CreateSocketAndTunnel_trace[of c tr l] eq by auto
  show ?thesis
    using assms eq ev by (cases r) (auto simp: createStep_def)
qed

lemma createStep_matched:
  assumes "ConnectorData l = Some lcd" "m (ConnectorData_Key lcd) = Some a"
  shows "\<exists>ev. snd (snd (createStep c tr l m)) = tr @ ev \<and>
          (\<forall>e \<in> set ev. \<not> isDelete e \<and> \<not> isCreate e \<and> \<not> isConnect e) \<and>
          dom (fst (snd (createStep c tr l m))) = dom m"
proof -
  obtain r tr' am lm where eq: "CheckAndUpdateSocket c tr a l = (r, tr', am, lm)"
    by (cases "CheckAndUpdateSocket c tr a l") auto
  obtain ev where ev: "tr' = tr @ ev"
    "\<forall>e \<in> set ev. \<not> isDelete e \<and> \<not> isCreate e \<and> \<not> isConnect e"
    using CheckAndUpdateSocket_trace[of c tr a l] eq by auto
  have "dom (m(ConnectorData_Key lcd \<mapsto> am)) = dom m"
    using assms(2) by auto
  then show ?thesis
    using assms eq ev by (simp add: createStep_def)
qed

lemma createStep_general:
  "\<exists>ev. snd (snd (createStep c tr l m)) = tr @ ev \<and>
        (\<forall>e \<in> set ev. \<not> isDelete e \<and> \<not> isConnect e) \<and>
        dom (fst (snd (createStep c tr l m))) = dom m"
proof (cases "ConnectorData l")
  case None
  then show ?thesis by (simp add: createStep_def)
next
  case (Some lcd)
  show ?thesis
  proof (cases "m (ConnectorData_Key lcd)")
    case None
    then show ?thesis
      using createStep_unmatched[where l = l and lcd = lcd and m = m and c = c and tr = tr] Some
      by auto
  next
    case (Some a)
    then show ?thesis
      using createStep_matched[where l = l and lcd = lcd and m = m and a = a and c = c and tr = tr]
        \<open>ConnectorData l = Some lcd\<close>
      by auto
  qed
qed

lemma CheckSocketsToCreate_general:
  "\<exists>ev. snd (CheckSocketsToCreate c tr ls m acc) = tr @ ev \<and>
        (\<forall>e \<in> set ev. \<not> isDelete e \<and> \<not> isConnect e)"
proof (induction ls arbitrary: tr m acc)
  case Nil
  then show ?case by simp
next
  case (Cons l ls)
  obtain r m1 tr1 where step: "createStep c tr l m = (r, m1, tr1)"
    by (cases "createStep c tr l m") auto
  obtain ev1 where ev1: "tr1 = tr @ ev1" "\<forall>e \<in> set ev1. \<not> isDelete e \<and> \<not> isConnect e"
    using createStep_general[of c tr l m] step by auto
  show ?case
  proof (cases r)
    case (Inl err)
    then show ?thesis using step ev1 by simp
  next
    case (Inr s)
    obtain ev2 where ev2: "snd (CheckSocketsToCreate c tr1 ls m1 (acc @ [s])) = tr1 @ ev2"
      "\<forall>e \<in> set ev2. \<not> isDelete e \<and> \<not> isConnect e"
      using Cons.IH[where tr = tr1 and m = m1 and acc = "acc @ [s]"] by auto
    have "snd (CheckSocketsToCreate c tr (l # ls) m acc) = tr @ (ev1 @ ev2)"
      using step Inr ev1(1) ev2(1) by simp
    moreover have "\<forall>e \<in> set (ev1 @ ev2). \<not> isDelete e \<and> \<not> isConnect e"
      using ev1(2) ev2(2) by auto
    ultimately show ?thesis by blast
  qed
qed

lemma CheckSocketsToCreate_matched:
  assumes "\<forall>l \<in> set ls. \<exists>lcd. ConnectorData l = Some lcd \<and> ConnectorData_Key lcd \<in> dom m"
  shows "\<exists>ev. snd (CheckSocketsToCreate c tr ls m acc) = tr @ ev \<and>
        (\<forall>e \<in> set ev. \<not> isDelete e \<and> \<not> isCreate e \<and> \<not> isConnect e)"
  using assms
proof (induction ls arbitrary: tr m acc)
  case Nil
  then show ?case by simp
next
  case (Cons l ls)
  obtain lcd a where l: "ConnectorData l = Some lcd" "m (ConnectorData_Key lcd) = Some a"
    using Cons.prems by auto
  obtain r m1 tr1 where step: "createStep c tr l m = (r, m1, tr1)"
    by (cases "createStep c tr l m") auto
  obtain ev1 where ev1: "tr1 = tr @ ev1"
    "\<forall>e \<in> set ev1. \<not> isDelete e \<and> \<not> isCreate e \<and> \<not> isConnect e" "dom m1 = dom m"
    using createStep_matched[where l = l and lcd = lcd and m = m and a = a and c = c and tr = tr]
      l step by auto
  show ?case
  proof (cases r)
    case (Inl err)
    then show ?thesis using step ev1 by simp
  next
    case (Inr s)
    have "\<forall>l \<in> set ls. \<exists>lcd. ConnectorData l = Some lcd \<and> ConnectorData_Key lcd \<in> dom m1"
      using Cons.prems ev1(3) by simp
    then obtain ev2 where ev2: "snd (CheckSocketsToCreate c tr1 ls m1 (acc @ [s])) = tr1 @ ev2"
      "\<forall>e \<in> set ev2. \<not> isDelete e \<and> \<not> isCreate e \<and> \<not> isConnect e"
      using Cons.IH[where tr = tr1 and m = m1 and acc = "acc @ [s]"] by auto
    have "snd (CheckSocketsToCreate c tr (l # ls) m acc) = tr @ (ev1 @ ev2)"
      using step Inr ev1(1) ev2(1) by simp
    moreover have "\<forall>e \<in> set (ev1 @ ev2). \<not> isDelete e \<and> \<not> isCreate e \<and> \<not> isConnect e"
      using ev1(2) ev2(2) by auto
    ultimately show ?thesis by blast
  qed
qed


lemma socketKey_withDescription [simp]: "socketKey (withDescription c s) = socketKey s"
  by (simp add: withDescription_def socketKey_def)

lemma ConnectorData_withDescription [simp]:
  "ConnectorData (withDescription c s) = ConnectorData s"
  by (simp add: withDescription_def)

lemma deleteStep_other_key:
  assumes "socketKey a \<noteq> k"
  shows "fst (snd (deleteStep c tr a m)) k = m k"
proof (cases "ConnectorData a")
  case None
  then show ?thesis by (simp add: deleteStep_def)
next
  case (Some acd)
  then have k: "ConnectorData_Key acd \<noteq> k" using assms by (simp add: socketKey_def)
  show ?thesis
    using Some k
    by (auto simp: deleteStep_def Let_def split: option.splits prod.splits sum.splits)
qed

lemma deleteStep_events:
  "\<exists>ev. snd (snd (deleteStep c tr a m)) = tr @ ev \<and>
     (\<forall>sid. DeleteSocket sid \<in> set ev \<longrightarrow>
        sid = SocketID a \<and> socketKey a \<noteq> [] \<and>
        ((\<exists>s. m (socketKey a) = Some s \<and> ConnectorData s \<noteq> ConnectorData a) \<or>
         (m (socketKey a) = None \<and> ownedBy c a))) \<and>
     (\<forall>s. CreateSocket s \<in> set ev \<longrightarrow>
        (\<exists>l. m (socketKey a) = Some l \<and> s = withDescription c l \<and>
             ConnectorData l \<noteq> ConnectorData a))"
proof (cases "ConnectorData a")
  case None
  then show ?thesis by (simp add: deleteStep_def)
next
  case (Some acd)
  then have sk: "socketKey a = ConnectorData_Key acd" by (simp add: socketKey_def)
  show ?thesis
  proof (cases "ConnectorData_Key acd = []")
    case True
    then show ?thesis
      using deleteStep_skip[where a = a and acd = acd and m = m and c = c and tr = tr] Some
      by simp
  next
    case keyed: False
    show ?thesis
    proof (cases "m (ConnectorData_Key acd)")
      case None
      show ?thesis
      proof (cases "cd_Connector acd = cfg_Connector_Name c \<and> cd_PluginName acd = discovery_Name c")
        case True
        then have "ownedBy c a" using Some by (simp add: ownedBy_def)
        then show ?thesis
          using deleteStep_owned_unmatched[where a = a and acd = acd and m = m and c = c
              and tr = tr] Some keyed None True sk
          by simp
      next
        case False
        then show ?thesis
          using deleteStep_foreign[where a = a and acd = acd and m = m and c = c and tr = tr]
            Some keyed None
          by simp
      qed
    next
      case found: (Some s)
      show ?thesis
      proof (cases "ConnectorData s")
        case None
        then show ?thesis using Some keyed found by (simp add: deleteStep_def)
      next
        case scd: (Some scd)
        show ?thesis
        proof (cases "scd = acd")
          case True
          then show ?thesis
            using deleteStep_same[where a = a and acd = acd and m = m and s = s
                    and c = c and tr = tr] Some keyed found scd by simp
        next
          case False
          obtain r tr' where rec: "RecreateSocket c tr (SocketID a) s = (r, tr')"
            by (cases "RecreateSocket c tr (SocketID a) s") auto
          have differ: "ConnectorData s \<noteq> ConnectorData a"
            using Some scd False by simp
          have shape: "tr' = tr @ [DeleteSocket (SocketID a)] \<or>
            (\<exists>p. tr' = tr @ [DeleteSocket (SocketID a), CreateSocket (withDescription c s)] \<or>
                 tr' = tr @ [DeleteSocket (SocketID a), CreateSocket (withDescription c s), p] \<and>
                 \<not> isCreate p \<and> \<not> isDelete p)"
            using rec
            by (auto simp: RecreateSocket_def CreateSocketAndTunnel_def Let_def
                split: option.splits sum.splits)
          have step: "snd (snd (deleteStep c tr a m)) = tr'"
            using deleteStep_recreate[where a = a and acd = acd and m = m and s = s
                    and scd = scd and c = c and tr = tr] Some keyed found scd False rec
            by (cases r) auto
          from shape show ?thesis
          proof (elim disjE exE conjE)
            assume "tr' = tr @ [DeleteSocket (SocketID a)]"
            then show ?thesis using step sk keyed found differ by auto
          next
            fix p assume "tr' = tr @ [DeleteSocket (SocketID a), CreateSocket (withDescription c s)]"
            then show ?thesis using step sk keyed found differ by auto
          next
            fix p assume "tr' = tr @ [DeleteSocket (SocketID a), CreateSocket (withDescription c s), p]"
              "\<not> isCreate p" "\<not> isDelete p"
            then show ?thesis using step sk keyed found differ by auto
          qed
        qed
      qed
    qed
  qed
qed

lemma CheckSocketsToDelete_deletes:
  "\<exists>ev. snd (snd (CheckSocketsToDelete c tr xs m)) = tr @ ev \<and>
     (\<forall>sid. DeleteSocket sid \<in> set ev \<longrightarrow>
        (\<exists>x \<in> set xs. SocketID x = sid \<and> socketKey x \<noteq> [] \<and>
           (ownedBy c x \<or> socketKey x \<in> dom m)))"
proof (induction xs arbitrary: tr m)
  case Nil
  then show ?case by simp
next
  case (Cons a xs)
  obtain r m1 tr1 where step: "deleteStep c tr a m = (r, m1, tr1)"
    by (cases "deleteStep c tr a m") auto
  obtain ev1 where ev1: "tr1 = tr @ ev1"
    "\<forall>sid. DeleteSocket sid \<in> set ev1 \<longrightarrow>
        sid = SocketID a \<and> socketKey a \<noteq> [] \<and>
        ((\<exists>s. m (socketKey a) = Some s \<and> ConnectorData s \<noteq> ConnectorData a) \<or>
         (m (socketKey a) = None \<and> ownedBy c a))"
    using deleteStep_events[of c tr a m] step by auto
  have dom1: "dom m1 = dom m"
    using deleteStep_general[of c tr a m] step by auto
  have d1: "\<forall>sid. DeleteSocket sid \<in> set ev1 \<longrightarrow>
        (\<exists>x \<in> set (a # xs). SocketID x = sid \<and> socketKey x \<noteq> [] \<and>
           (ownedBy c x \<or> socketKey x \<in> dom m))"
    using ev1(2) by fastforce
  show ?case
  proof (cases r)
    case (Some err)
    then have "snd (snd (CheckSocketsToDelete c tr (a # xs) m)) = tr @ ev1"
      using step ev1(1) by simp
    then show ?thesis using d1 by blast
  next
    case None
    obtain ev2 where ev2: "snd (snd (CheckSocketsToDelete c tr1 xs m1)) = tr1 @ ev2"
      "\<forall>sid. DeleteSocket sid \<in> set ev2 \<longrightarrow>
        (\<exists>x \<in> set xs. SocketID x = sid \<and> socketKey x \<noteq> [] \<and>
           (ownedBy c x \<or> socketKey x \<in> dom m1))"
      using Cons.IH[of tr1 m1] by blast
    have "snd (snd (CheckSocketsToDelete c tr (a # xs) m)) = tr @ (ev1 @ ev2)"
      using step None ev1(1) ev2(1) by simp
    moreover have "\<forall>sid. DeleteSocket sid \<in> set (ev1 @ ev2) \<longrightarrow>
        (\<exists>x \<in> set (a # xs). SocketID x = sid \<and> socketKey x \<noteq> [] \<and>
           (ownedBy c x \<or> socketKey x \<in> dom m))"
    proof (intro allI impI)
      fix sid assume "DeleteSocket sid \<in> set (ev1 @ ev2)"
      then consider "DeleteSocket sid \<in> set ev1" | "DeleteSocket sid \<in> set ev2" by auto
      then show "\<exists>x \<in> set (a # xs). SocketID x = sid \<and> socketKey x \<noteq> [] \<and>
           (ownedBy c x \<or> socketKey x \<in> dom m)"
      proof cases
        case 1
        then show ?thesis using d1 by blast
      next
        case 2
        then obtain x where "x \<in> set xs" "SocketID x = sid" "socketKey x \<noteq> []"
          "ownedBy c x \<or> socketKey x \<in> dom m1"
          using ev2(2) by blast
        then show ?thesis using dom1 by auto
      qed
    qed
    ultimately show ?thesis by blast
  qed
qed

lemma CheckSocketsToDelete_recreate:
  assumes "a \<in> set xs" "ConnectorData a = Some acd" "ConnectorData_Key acd \<noteq> []"
    "\<forall>x \<in> set xs. socketKey x = ConnectorData_Key acd \<longrightarrow> x = a"
    "m (ConnectorData_Key acd) = Some l" "ConnectorData l = Some lcd" "lcd \<noteq> acd"
    "fst (CheckSocketsToDelete c tr xs m) = None"
  shows "\<exists>D1 D2. snd (snd (CheckSocketsToDelete c tr xs m)) =
           tr @ D1 @ [DeleteSocket (SocketID a), CreateSocket (withDescription c l)] @ D2"
  using assms(1,4,5,8)
proof (induction xs arbitrary: tr m)
  case Nil
  then show ?case by simp
next
  case (Cons x xs)
  obtain r m1 tr1 where step: "deleteStep c tr x m = (r, m1, tr1)"
    by (cases "deleteStep c tr x m") auto
  have r: "r = None"
    using Cons.prems(4) step by (cases r) simp_all
  have rest: "CheckSocketsToDelete c tr (x # xs) m = CheckSocketsToDelete c tr1 xs m1"
    using step r by simp
  obtain ev1 where ev1: "tr1 = tr @ ev1"
    using deleteStep_general[of c tr x m] step by auto
  obtain ev2 where ev2: "snd (snd (CheckSocketsToDelete c tr1 xs m1)) = tr1 @ ev2"
    using CheckSocketsToDelete_general[of c tr1 xs m1] by auto
  show ?case
  proof (cases "x = a")
    case True
    obtain rr tr' where rec: "RecreateSocket c tr (SocketID a) l = (rr, tr')"
      by (cases "RecreateSocket c tr (SocketID a) l") auto
    have ds: "deleteStep c tr a m =
      (case rr of Inl err \<Rightarrow> (Some err, m, tr')
       | Inr createdSocket \<Rightarrow> (None, m(ConnectorData_Key acd \<mapsto> createdSocket), tr'))"
      using deleteStep_recreate[where a = a and acd = acd and m = m and s = l and scd = lcd
          and c = c and tr = tr] assms(2,3,6,7) Cons.prems(3) rec
      by (simp split: sum.splits)
    obtain created where rr: "rr = Inr created"
      using ds step True r by (cases rr) auto
    have tr1: "tr1 = tr'" using ds step True rr by simp
    obtain ev where ev: "tr' = tr @ DeleteSocket (SocketID a) # ev"
      "\<exists>ev'. ev = CreateSocket (withDescription c l) # ev'"
      using RecreateSocket_trace[of c tr "SocketID a" l] rec rr by auto
    then obtain ev' where "tr' = tr @ [DeleteSocket (SocketID a),
        CreateSocket (withDescription c l)] @ ev'" by auto
    then have "snd (snd (CheckSocketsToDelete c tr (x # xs) m)) =
        tr @ [] @ [DeleteSocket (SocketID a), CreateSocket (withDescription c l)] @ (ev' @ ev2)"
      using rest ev2 tr1 by simp
    then show ?thesis by blast
  next
    case False
    then have "a \<in> set xs" using Cons.prems(1) by simp
    moreover have "socketKey x \<noteq> ConnectorData_Key acd"
      using Cons.prems(2) False by auto
    then have "m1 (ConnectorData_Key acd) = Some l"
      using deleteStep_other_key[of x "ConnectorData_Key acd" c tr m] step Cons.prems(3)
      by simp
    moreover have "fst (CheckSocketsToDelete c tr1 xs m1) = None"
      using Cons.prems(4) rest by simp
    moreover have "\<forall>x \<in> set xs. socketKey x = ConnectorData_Key acd \<longrightarrow> x = a"
      using Cons.prems(2) by simp
    ultimately obtain D1 D2 where "snd (snd (CheckSocketsToDelete c tr1 xs m1)) =
           tr1 @ D1 @ [DeleteSocket (SocketID a), CreateSocket (withDescription c l)] @ D2"
      using Cons.IH[where tr = tr1 and m = m1] by blast
    then have "snd (snd (CheckSocketsToDelete c tr (x # xs) m)) =
           tr @ (ev1 @ D1) @ [DeleteSocket (SocketID a), CreateSocket (withDescription c l)] @ D2"
      using rest ev1(1) by simp
    then show ?thesis by blast
  qed
qed

lemma deleteStep_unkeyed:
  assumes "socketKey a = []"
  shows "fst (snd (deleteStep c tr a m)) = m"
proof (cases "ConnectorData a")
  case None
  then show ?thesis by (simp add: deleteStep_def)
next
  case (Some acd)
  then have "ConnectorData_Key acd = []" using assms by (simp add: socketKey_def)
  then show ?thesis
    using deleteStep_skip[where a = a and acd = acd and m = m and c = c and tr = tr] Some
    by simp
qed

lemma CheckSocketsToDelete_other_keys:
  assumes "distinct (map socketKey (filter (\<lambda>x. socketKey x \<noteq> []) xs))"
    "\<forall>y \<in> set xs. \<forall>s. m (socketKey y) = Some s \<longrightarrow> socketKey s = socketKey y"
    "m k = Some l" "ConnectorData l = Some cd"
    "\<forall>x \<in> set xs. socketKey x = k \<longrightarrow> ConnectorData x = Some cd"
  shows "\<exists>ev. snd (snd (CheckSocketsToDelete c tr xs m)) = tr @ ev \<and>
     (\<forall>sid. DeleteSocket sid \<in> set ev \<longrightarrow> (\<exists>x \<in> set xs. SocketID x = sid \<and> socketKey x \<noteq> k)) \<and>
     (\<forall>s. CreateSocket s \<in> set ev \<longrightarrow> socketKey s \<noteq> k)"
  using assms(1,2,3,5)
proof (induction xs arbitrary: tr m)
  case Nil
  then show ?case by simp
next
  case (Cons x xs)
  obtain r m1 tr1 where step: "deleteStep c tr x m = (r, m1, tr1)"
    by (cases "deleteStep c tr x m") auto
  obtain ev1 where ev1: "tr1 = tr @ ev1"
    "\<forall>sid. DeleteSocket sid \<in> set ev1 \<longrightarrow>
        sid = SocketID x \<and> socketKey x \<noteq> [] \<and>
        ((\<exists>s. m (socketKey x) = Some s \<and> ConnectorData s \<noteq> ConnectorData x) \<or>
         (m (socketKey x) = None \<and> ownedBy c x))"
    "\<forall>s. CreateSocket s \<in> set ev1 \<longrightarrow>
        (\<exists>l. m (socketKey x) = Some l \<and> s = withDescription c l \<and>
             ConnectorData l \<noteq> ConnectorData x)"
    using deleteStep_events[of c tr x m] step by auto
  have ev1_del: "\<forall>sid. DeleteSocket sid \<in> set ev1 \<longrightarrow> SocketID x = sid \<and> socketKey x \<noteq> k"
  proof (intro allI impI)
    fix sid assume d: "DeleteSocket sid \<in> set ev1"
    then have "(\<exists>s. m (socketKey x) = Some s \<and> ConnectorData s \<noteq> ConnectorData x) \<or>
         (m (socketKey x) = None \<and> ownedBy c x)" using ev1(2) by blast
    then have "socketKey x \<noteq> k"
      using Cons.prems(3,4) assms(4) by auto
    then show "SocketID x = sid \<and> socketKey x \<noteq> k" using ev1(2) d by blast
  qed
  have ev1_cr: "\<forall>s. CreateSocket s \<in> set ev1 \<longrightarrow> socketKey s \<noteq> k"
  proof (intro allI impI)
    fix s assume "CreateSocket s \<in> set ev1"
    then obtain l' where l': "m (socketKey x) = Some l'" "s = withDescription c l'"
      "ConnectorData l' \<noteq> ConnectorData x" using ev1(3) by blast
    then have "socketKey x \<noteq> k"
      using Cons.prems(3,4) assms(4) by auto
    moreover have "socketKey l' = socketKey x" using Cons.prems(2) l'(1) by simp
    ultimately show "socketKey s \<noteq> k" using l'(2) by simp
  qed
  show ?case
  proof (cases r)
    case (Some err)
    then have "snd (snd (CheckSocketsToDelete c tr (x # xs) m)) = tr @ ev1"
      using step ev1(1) by simp
    then show ?thesis using ev1_del ev1_cr by auto
  next
    case None
    have tail: "\<forall>y \<in> set xs. m1 (socketKey y) = m (socketKey y)"
    proof
      fix y assume y: "y \<in> set xs"
      show "m1 (socketKey y) = m (socketKey y)"
      proof (cases "socketKey x = socketKey y")
        case False
        then show ?thesis
          using deleteStep_other_key[of x "socketKey y" c tr m] step by simp
      next
        case True
        have "socketKey x = []"
        proof (rule ccontr)
          assume keyed: "socketKey x \<noteq> []"
          then have "socketKey x \<notin> set (map socketKey (filter (\<lambda>x. socketKey x \<noteq> []) xs))"
            using Cons.prems(1) by simp
          moreover have "socketKey y \<in> set (map socketKey (filter (\<lambda>x. socketKey x \<noteq> []) xs))"
            using y keyed True by auto
          ultimately show False using True by simp
        qed
        then have "m1 = m"
          using deleteStep_unkeyed[of x c tr m] step by simp
        then show ?thesis by simp
      qed
    qed
    have k1: "m1 k = Some l"
    proof (cases "socketKey x = k")
      case False
      then show ?thesis
        using deleteStep_other_key[of x k c tr m] step Cons.prems(3) by simp
    next
      case True
      then have cdx: "ConnectorData x = Some cd" using Cons.prems(4) by simp
      then have kk: "ConnectorData_Key cd = k" using True by (simp add: socketKey_def)
      have "m1 = m"
      proof (cases "k = []")
        case True
        then show ?thesis
          using deleteStep_skip[where a = x and acd = cd and m = m and c = c and tr = tr]
            cdx kk step by simp
      next
        case False
        then show ?thesis
          using deleteStep_same[where a = x and acd = cd and m = m and s = l and c = c
              and tr = tr] cdx kk step Cons.prems(3) assms(4) by simp
      qed
      then show ?thesis using Cons.prems(3) by simp
    qed
    have "distinct (map socketKey (filter (\<lambda>x. socketKey x \<noteq> []) xs))"
      using Cons.prems(1) by (simp split: if_splits)
    moreover have "\<forall>y \<in> set xs. \<forall>s. m1 (socketKey y) = Some s \<longrightarrow> socketKey s = socketKey y"
    proof (intro ballI allI impI)
      fix y s assume y: "y \<in> set xs" and s: "m1 (socketKey y) = Some s"
      have "m (socketKey y) = Some s" using tail y s by metis
      moreover have "y \<in> set (x # xs)" using y by (rule list.set_intros(2))
      ultimately show "socketKey s = socketKey y" using Cons.prems(2) by blast
    qed
    moreover have "\<forall>x \<in> set xs. socketKey x = k \<longrightarrow> ConnectorData x = Some cd"
      using Cons.prems(4) by simp
    ultimately obtain ev2 where ev2: "snd (snd (CheckSocketsToDelete c tr1 xs m1)) = tr1 @ ev2"
      "\<forall>sid. DeleteSocket sid \<in> set ev2 \<longrightarrow> (\<exists>x \<in> set xs. SocketID x = sid \<and> socketKey x \<noteq> k)"
      "\<forall>s. CreateSocket s \<in> set ev2 \<longrightarrow> socketKey s \<noteq> k"
      using Cons.IH[where tr = tr1 and m = m1] k1 by blast
    have "snd (snd (CheckSocketsToDelete c tr (x # xs) m)) = tr @ (ev1 @ ev2)"
      using step None ev1(1) ev2(1) by simp
    moreover have "\<forall>sid. DeleteSocket sid \<in> set (ev1 @ ev2) \<longrightarrow>
        (\<exists>y \<in> set (x # xs). SocketID y = sid \<and> socketKey y \<noteq> k)"
      using ev1_del ev2(2) by auto
    moreover have "\<forall>s. CreateSocket s \<in> set (ev1 @ ev2) \<longrightarrow> socketKey s \<noteq> k"
      using ev1_cr ev2(3) by auto
    ultimately show ?thesis by blast
  qed
qed

subsection \<open>One tick of the reconciler\<close>

lemma ConnectorData_Setup [simp]:
  "ConnectorData (SetupTypeAndUpstreamTypeByPortOrTags s) = ConnectorData s"
  by (simp add: SetupTypeAndUpstreamTypeByPortOrTags_def Let_def)

lemma ConnectorData_bootstrapSocket:
  "\<exists>cd. ConnectorData (bootstrapSocket c s) = Some cd"
  by (simp add: bootstrapSocket_def BuildConnectorData_def Let_def)

lemma ConnectorData_prepareApiSocket:
  "\<exists>cd. ConnectorData (prepareApiSocket s) = Some cd"
  by (simp add: prepareApiSocket_def BuildConnectorDataByTags_def Let_def)

lemma indexLocalSockets_lookup:
  "indexLocalSockets xs m k = Some s \<Longrightarrow>
     (s \<in> set xs \<and> (\<exists>cd. ConnectorData s = Some cd \<and> ConnectorData_Key cd = k)) \<or> m k = Some s"
proof (induction xs arbitrary: m)
  case Nil
  then show ?case by simp
next
  case (Cons x xs)
  then show ?case
    by (cases "ConnectorData x") (fastforce split: if_splits)+
qed

lemma indexLocalSockets_dom:
  "dom (indexLocalSockets xs m) =
     dom m \<union> {ConnectorData_Key cd |cd. \<exists>x \<in> set xs. ConnectorData x = Some cd}"
proof (induction xs arbitrary: m)
  case Nil
  then show ?case by simp
next
  case (Cons x xs)
  show ?case
    by (cases "ConnectorData x") (auto simp: Cons.IH split: if_splits)
qed

lemma indexApiSockets_dom:
  "dom (indexApiSockets xs m) =
     dom m \<union> {ConnectorData_Key cd |cd.
                 ConnectorData_Key cd \<noteq> [] \<and> (\<exists>x \<in> set xs. ConnectorData x = Some cd)}"
proof (induction xs arbitrary: m)
  case Nil
  then show ?case by simp
next
  case (Cons x xs)
  show ?case
    by (cases "ConnectorData x") (auto simp: Cons.IH split: if_splits)
qed



subsection \<open>The example connector\<close>

lemma prepareApiSocket_example:
  "prepareApiSocket (exampleServerSocket cd) = (exampleServerSocket cd)\<lparr>ConnectorData := Some cd\<rparr>"
proof -
  have "BuildConnectorDataByTags (exampleServerSocket cd) =
        (exampleServerSocket cd)\<lparr>ConnectorData := Some cd\<rparr>"
    by (rule BuildConnectorDataByTags_from_Tags) (simp add: exampleServerSocket_def)
  then show ?thesis
    by (simp add: prepareApiSocket_def Let_def exampleServerSocket_def Socket_zero_def)
qed

lemma bootstrapSocket_example:
  "bootstrapSocket (exampleCore inventory) exampleDiscovered =
     exampleDiscovered\<lparr>PluginName := ''StaticSocketFinder'', ConnectorData := Some exampleData,
       Tags := ConnectorData_Tags exampleData, SocketType := ''database'',
       UpstreamType := ''mysql''\<rparr>"
  by (simp add: bootstrapSocket_def exampleDiscovered_def exampleCore_def exampleData_def
      SanitizeName_def Replace1_def BuildConnectorData_def
      SetupTypeAndUpstreamTypeByPortOrTags_def Let_def Socket_zero_def)

lemma exampleData_Key:
  "ConnectorData_Key exampleData = ''db;c1;StaticSocketFinder''"
  "ConnectorData_Key (exampleData\<lparr>cd_Connector := ''c0''\<rparr>) = ''db;c0;StaticSocketFinder''"
  "ConnectorData_Key (exampleData\<lparr>cd_Name := ''old''\<rparr>) = ''old;c1;StaticSocketFinder''"
  by (simp_all add: ConnectorData_Key_def exampleData_def)

lemma exampleCore_fields:
  "cfg_Connector_Name (exampleCore inventory) = ''c1''"
  "discovery_Name (exampleCore inventory) = ''StaticSocketFinder''"
  "metadata_Principal (exampleCore inventory) = ''token:t1''"
  "GetSockets_reply (border0API (exampleCore inventory)) tr = Inr inventory"
  "CreateSocket_reply (border0API (exampleCore inventory)) tr s = Inr (s\<lparr>SocketID := ''new''\<rparr>)"
  "UpdateSocket_reply (border0API (exampleCore inventory)) tr socketID s = None"
  "DeleteSocket_reply (border0API (exampleCore inventory)) tr socketID = None"
  by (simp_all add: exampleCore_def exampleAPI_def)

lemma exampleData_fields:
  "cd_Connector exampleData = ''c1''"
  "cd_PluginName exampleData = ''StaticSocketFinder''"
  "cd_Name exampleData = ''db''"
  by (simp_all add: exampleData_def)

lemma exampleServerSocket_SocketID: "SocketID (exampleServerSocket cd) = ''sid-1''"
  by (simp add: exampleServerSocket_def)

lemma exampleServerSocket_auth:
  "\<not> ConnectorAuthenticationEnabled (exampleServerSocket cd)"
  by (simp add: exampleServerSocket_def Socket_zero_def)

lemma exampleDiscovered_fields:
  "Description exampleDiscovered = []"
  "PolicyNames exampleDiscovered = []"
  by (simp_all add: exampleDiscovered_def Socket_zero_def)

lemmas example_simps =
  prepareApiSocket_example bootstrapSocket_example exampleCore_fields exampleData_fields
  exampleData_Key exampleServerSocket_SocketID exampleDiscovered_fields

subsection \<open>Identity stability and recreation\<close>

text \<open>
  Claim C4. Let the discovered sockets, prepared as the tick prepares them, and the
  server's sockets, with their ConnectorData rebuilt from their tags, agree key for key:
  whenever a server socket and a discovered socket have the same key they have the same
  ConnectorData, every server socket of this connector and plugin has a discovered socket
  under its key, and every discovered socket has a server socket under its (non-empty)
  key. Then the tick issues the inventory call and after it no creation and no deletion.
\<close>

theorem identity_stability:
  assumes reply: "GetSockets_reply (border0API c) tr = Inr fromApi"
    and same: "\<forall>a \<in> set (map prepareApiSocket fromApi).
                 \<forall>l \<in> set (map (bootstrapSocket c) discovered).
                   socketKey a = socketKey l \<longrightarrow> ConnectorData a = ConnectorData l"
    and server_known:
      "\<forall>a \<in> set (map prepareApiSocket fromApi). \<forall>acd.
         ConnectorData a = Some acd \<and> ConnectorData_Key acd \<noteq> [] \<and>
         cd_Connector acd = cfg_Connector_Name c \<and> cd_PluginName acd = discovery_Name c \<longrightarrow>
         (\<exists>l \<in> set (map (bootstrapSocket c) discovered). socketKey l = ConnectorData_Key acd)"
    and local_known:
      "\<forall>l \<in> set (map (bootstrapSocket c) discovered).
         \<exists>a \<in> set (map prepareApiSocket fromApi).
           socketKey a = socketKey l \<and> socketKey a \<noteq> []"
  shows "\<exists>ev. snd (SocketsCoreHandler c tr discovered) = tr @ GetSockets # ev \<and>
              (\<forall>e \<in> set ev. \<not> isCreate e \<and> \<not> isDelete e)"
proof -
  define locals where "locals = map (bootstrapSocket c) discovered"
  define apis where "apis = map prepareApiSocket fromApi"
  define lm where "lm = indexLocalSockets locals Map.empty"
  define am where "am = indexApiSockets apis Map.empty"
  have del: "CheckSocketsToDelete c (tr @ [GetSockets]) apis lm = (None, lm, tr @ [GetSockets])"
  proof (rule CheckSocketsToDelete_agree, rule ballI)
    fix a assume a: "a \<in> set apis"
    obtain acd where acd: "ConnectorData a = Some acd"
      using a ConnectorData_prepareApiSocket unfolding apis_def by auto
    show "\<exists>acd. ConnectorData a = Some acd \<and>
             (ConnectorData_Key acd = [] \<or>
              (\<exists>s. lm (ConnectorData_Key acd) = Some s \<and> ConnectorData s = Some acd) \<or>
              (lm (ConnectorData_Key acd) = None \<and>
               \<not> (cd_Connector acd = cfg_Connector_Name c \<and>
                    cd_PluginName acd = discovery_Name c)))"
    proof (cases "lm (ConnectorData_Key acd)")
      case None
      have "\<not> (\<exists>l \<in> set locals. socketKey l = ConnectorData_Key acd)"
      proof
        assume "\<exists>l \<in> set locals. socketKey l = ConnectorData_Key acd"
        then obtain l where l: "l \<in> set locals" "socketKey l = ConnectorData_Key acd" by blast
        obtain lcd where lcd: "ConnectorData l = Some lcd"
          using l(1) ConnectorData_bootstrapSocket unfolding locals_def by auto
        have "ConnectorData_Key lcd \<in> dom lm"
          unfolding lm_def indexLocalSockets_dom using l(1) lcd by auto
        then show False using None l(2) lcd by (auto simp: socketKey_def)
      qed
      then have "ConnectorData_Key acd = [] \<or>
            \<not> (cd_Connector acd = cfg_Connector_Name c \<and> cd_PluginName acd = discovery_Name c)"
        using server_known a acd unfolding apis_def locals_def by blast
      then have "ConnectorData_Key acd = [] \<or>
              (\<exists>s. lm (ConnectorData_Key acd) = Some s \<and> ConnectorData s = Some acd) \<or>
              (lm (ConnectorData_Key acd) = None \<and>
               \<not> (cd_Connector acd = cfg_Connector_Name c \<and>
                    cd_PluginName acd = discovery_Name c))"
        using None by blast
      with acd show ?thesis by blast
    next
      case (Some s)
      then have "s \<in> set locals \<and> (\<exists>cd. ConnectorData s = Some cd \<and>
                   ConnectorData_Key cd = ConnectorData_Key acd)"
        using indexLocalSockets_lookup[of locals Map.empty "ConnectorData_Key acd" s]
        unfolding lm_def by simp
      then obtain scd where s: "s \<in> set locals" "ConnectorData s = Some scd"
        "ConnectorData_Key scd = ConnectorData_Key acd" by blast
      have "socketKey a = socketKey s"
        using acd s by (simp add: socketKey_def)
      then have "ConnectorData a = ConnectorData s"
        using same a s(1) unfolding apis_def locals_def by blast
      then have "ConnectorData s = Some acd" using acd by simp
      then have "ConnectorData_Key acd = [] \<or>
              (\<exists>s. lm (ConnectorData_Key acd) = Some s \<and> ConnectorData s = Some acd) \<or>
              (lm (ConnectorData_Key acd) = None \<and>
               \<not> (cd_Connector acd = cfg_Connector_Name c \<and>
                    cd_PluginName acd = discovery_Name c))"
        using Some by blast
      with acd show ?thesis by blast
    qed
  qed
  have matched: "\<forall>l \<in> set locals. \<exists>lcd. ConnectorData l = Some lcd \<and> ConnectorData_Key lcd \<in> dom am"
  proof
    fix l assume l: "l \<in> set locals"
    obtain lcd where lcd: "ConnectorData l = Some lcd"
      using l ConnectorData_bootstrapSocket unfolding locals_def by auto
    obtain a where a: "a \<in> set apis" "socketKey a = socketKey l" "socketKey a \<noteq> []"
      using local_known l unfolding apis_def locals_def by blast
    obtain acd where acd: "ConnectorData a = Some acd"
      using a(1) ConnectorData_prepareApiSocket unfolding apis_def by auto
    have keyed: "ConnectorData_Key acd \<noteq> []"
      using a(3) acd by (simp add: socketKey_def)
    have "ConnectorData_Key acd \<in> dom am"
      unfolding am_def indexApiSockets_dom using a(1) acd keyed by blast
    then show "\<exists>lcd. ConnectorData l = Some lcd \<and> ConnectorData_Key lcd \<in> dom am"
      using lcd a(2) acd by (simp add: socketKey_def)
  qed
  obtain ev where ev: "snd (CheckSocketsToCreate c (tr @ [GetSockets]) locals am []) =
      (tr @ [GetSockets]) @ ev"
    "\<forall>e \<in> set ev. \<not> isDelete e \<and> \<not> isCreate e \<and> \<not> isConnect e"
    using CheckSocketsToCreate_matched[OF matched, of c "tr @ [GetSockets]" "[]"] by blast
  have "snd (SocketsCoreHandler c tr discovered) = tr @ GetSockets # ev"
    using reply del ev(1)
    by (simp add: SocketsCoreHandler_def Let_def locals_def apis_def lm_def am_def)
  then show ?thesis using ev(2) by blast
qed

theorem identity_stability_witness:
  "ConnectorData (prepareApiSocket (exampleServerSocket exampleData)) =
     ConnectorData (bootstrapSocket (exampleCore [exampleServerSocket exampleData])
                      exampleDiscovered) \<and>
   (\<exists>ev. snd (SocketsCoreHandler (exampleCore [exampleServerSocket exampleData]) []
                 [exampleDiscovered]) = GetSockets # ev \<and>
         filter (\<lambda>e. isCreate e \<or> isDelete e) ev = [])"
proof -
  have "\<exists>ev. snd (SocketsCoreHandler (exampleCore [exampleServerSocket exampleData]) []
                 [exampleDiscovered]) = [] @ GetSockets # ev \<and>
             (\<forall>e \<in> set ev. \<not> isCreate e \<and> \<not> isDelete e)"
    by (rule identity_stability[where fromApi = "[exampleServerSocket exampleData]"])
       (simp_all add: example_simps socketKey_def)
  then obtain ev where
    "snd (SocketsCoreHandler (exampleCore [exampleServerSocket exampleData]) []
                 [exampleDiscovered]) = GetSockets # ev"
    "\<forall>e \<in> set ev. \<not> isCreate e \<and> \<not> isDelete e"
    by auto
  moreover from this(2) have "filter (\<lambda>e. isCreate e \<or> isDelete e) ev = []"
    by (induction ev) auto
  ultimately show ?thesis
    by (simp add: example_simps)
qed




subsection \<open>The tunnel registry and the connect messages\<close>

lemma SocketsCoreHandler_general:
  "\<exists>ev. snd (SocketsCoreHandler c tr sockets) = tr @ ev \<and> (\<forall>e \<in> set ev. \<not> isConnect e)"
proof (cases "GetSockets_reply (border0API c) tr")
  case (Inl err)
  then show ?thesis by (simp add: SocketsCoreHandler_def Let_def)
next
  case (Inr fromApi)
  define locals where "locals = map (bootstrapSocket c) sockets"
  define apis where "apis = map prepareApiSocket fromApi"
  define lm where "lm = indexLocalSockets locals Map.empty"
  define am where "am = indexApiSockets apis Map.empty"
  obtain r m2 tr2 where del: "CheckSocketsToDelete c (tr @ [GetSockets]) apis lm = (r, m2, tr2)"
    by (cases "CheckSocketsToDelete c (tr @ [GetSockets]) apis lm") auto
  obtain ev1 where ev1: "tr2 = (tr @ [GetSockets]) @ ev1" "\<forall>e \<in> set ev1. \<not> isConnect e"
    using CheckSocketsToDelete_general[of c "tr @ [GetSockets]" apis lm] del by auto
  have unfold: "SocketsCoreHandler c tr sockets =
      (case r of Some err \<Rightarrow> (Inl err, tr2)
       | None \<Rightarrow> CheckSocketsToCreate c tr2 locals am [])"
    using Inr del
    by (simp add: SocketsCoreHandler_def Let_def locals_def apis_def lm_def am_def
        split: option.splits)
  show ?thesis
  proof (cases r)
    case (Some err)
    then have "snd (SocketsCoreHandler c tr sockets) = tr @ (GetSockets # ev1)"
      using unfold ev1(1) by simp
    moreover have "\<forall>e \<in> set (GetSockets # ev1). \<not> isConnect e"
      using ev1(2) by simp
    ultimately show ?thesis by blast
  next
    case None
    obtain ev2 where ev2: "snd (CheckSocketsToCreate c tr2 locals am []) = tr2 @ ev2"
      "\<forall>e \<in> set ev2. \<not> isDelete e \<and> \<not> isConnect e"
      using CheckSocketsToCreate_general[of c tr2 locals am "[]"] by blast
    have "snd (SocketsCoreHandler c tr sockets) = tr @ (GetSockets # ev1 @ ev2)"
      using unfold None ev1(1) ev2(1) by simp
    moreover have "\<forall>e \<in> set (GetSockets # ev1 @ ev2). \<not> isConnect e"
      using ev1(2) ev2(2) by auto
    ultimately show ?thesis by blast
  qed
qed

lemma emitConnects_eq:
  "emitConnects reg tr xs =
     tr @ map (\<lambda>s. Send \<lparr>ctd_key = SocketID s, ctd_socket = s, ctd_action = ''connect''\<rparr>)
            (filter (\<lambda>s. \<not> IsSocketConnected reg (SocketID s)) xs)"
  by (induction xs arbitrary: tr) auto

lemma IsSocketConnected_iff:
  "\<not> IsSocketConnected reg k \<longleftrightarrow>
     SyncMap_Get reg k = None \<or> (\<exists>h. SyncMap_Get reg k = Some h \<and> conn_closed h)"
  by (auto simp: IsSocketConnected_def split: option.splits)

lemma HandleUpdates_connects:
  assumes "Send d \<in> set (drop (length tr) (snd (HandleUpdates c reg tr sockets)))"
    "ctd_action d = ''connect''"
  shows "\<exists>toConnect tr'. SocketsCoreHandler c tr sockets = (Inr toConnect, tr') \<and>
           ctd_socket d \<in> set toConnect \<and> ctd_key d = SocketID (ctd_socket d) \<and>
           \<not> IsSocketConnected reg (ctd_key d)"
proof -
  obtain r tr' where sch: "SocketsCoreHandler c tr sockets = (r, tr')"
    by (cases "SocketsCoreHandler c tr sockets") auto
  obtain ev where ev: "tr' = tr @ ev" "\<forall>e \<in> set ev. \<not> isConnect e"
    using SocketsCoreHandler_general[of c tr sockets] sch by auto
  have notev: "Send d \<notin> set ev"
    using ev(2) assms(2) by force
  show ?thesis
  proof (cases r)
    case (Inl err)
    then have "snd (HandleUpdates c reg tr sockets) = tr @ ev"
      using sch ev(1) by (simp add: HandleUpdates_def)
    then show ?thesis using assms(1) notev by simp
  next
    case (Inr toConnect)
    have "snd (HandleUpdates c reg tr sockets) =
        tr @ ev @ map (\<lambda>s. Send \<lparr>ctd_key = SocketID s, ctd_socket = s, ctd_action = ''connect''\<rparr>)
            (filter (\<lambda>s. \<not> IsSocketConnected reg (SocketID s)) toConnect)"
      using sch Inr ev(1) by (simp add: HandleUpdates_def emitConnects_eq)
    then have "Send d \<in> set (map (\<lambda>s. Send \<lparr>ctd_key = SocketID s, ctd_socket = s,
                                            ctd_action = ''connect''\<rparr>)
            (filter (\<lambda>s. \<not> IsSocketConnected reg (SocketID s)) toConnect))"
      using assms(1) notev by simp
    then obtain s where s: "s \<in> set toConnect" "\<not> IsSocketConnected reg (SocketID s)"
      "d = \<lparr>ctd_key = SocketID s, ctd_socket = s, ctd_action = ''connect''\<rparr>"
      by auto
    then show ?thesis using sch Inr by simp
  qed
qed

lemma distinct_map_entries:
  "map fst (map (\<lambda>(k, v). if k = i then (k, x) else (k, v)) reg) = map fst reg"
  by (induction reg) auto

lemma TunnelConnnect_distinct:
  assumes "distinct (map fst reg)"
  shows "distinct (map fst (snd (TunnelConnnect env reg socket)))"
proof -
  have d1: "distinct (map fst (SyncMap_Add k v reg))" for k v
    using assms by (simp add: SyncMap_Add_def distinct_update)
  have d2: "distinct (map fst (map (\<lambda>(k, v). if k = i then (k, x) else (k, v))
                                 (SyncMap_Add k' v' reg)))" for i x k' v'
    using d1 by (simp only: distinct_map_entries)
  have d3: "distinct (map fst (SyncMap_Delete j (map (\<lambda>(k, v). if k = i then (k, x) else (k, v))
                                 (SyncMap_Add k' v' reg))))" for i j x k' v'
    using d2 by (simp add: SyncMap_Delete_def distinct_delete)
  show ?thesis
    unfolding TunnelConnnect_def Let_def
    by (simp add: d1 d2 d3 del: map_map split: sum.splits option.splits prod.splits)
qed

lemma TunnelConnectJob_handle_distinct:
  assumes "distinct (map fst reg)"
  shows "distinct (map fst (TunnelConnectJob_handle env reg d))"
proof -
  have 1: "distinct (map fst (snd (TunnelConnnect env reg (ctd_socket d))))"
    using assms by (rule TunnelConnnect_distinct)
  have 2: "distinct (map fst r) \<Longrightarrow> distinct (map fst (SyncMap_Add k v r))" for r k v
    by (simp add: SyncMap_Add_def distinct_update)
  show ?thesis
    unfolding TunnelConnectJob_handle_def Let_def
    using assms 1 2 by (simp split: option.splits)
qed

lemma run_distinct:
  "distinct (map fst (connectedTunnels_of st)) \<Longrightarrow>
   distinct (map fst (connectedTunnels_of (run c st ops)))"
proof (induction ops arbitrary: st)
  case Nil
  then show ?case by simp
next
  case (Cons op ops)
  show ?case
  proof (cases op)
    case (Tick sockets)
    then show ?thesis using Cons by simp
  next
    case (Handle env d)
    then show ?thesis
      using Cons.IH Cons.prems TunnelConnectJob_handle_distinct by simp
  qed
qed

lemma distinct_one_entry:
  "distinct (map fst reg) \<Longrightarrow> length (filter (\<lambda>(k, h). k = sid \<and> P h) reg) \<le> 1"
proof (induction reg)
  case Nil
  then show ?case by simp
next
  case (Cons e reg)
  obtain k h where e: "e = (k, h)" by (cases e)
  show ?case
  proof (cases "k = sid")
    case True
    then have "sid \<notin> fst ` set reg" using Cons.prems e by auto
    then have "filter (\<lambda>(k, h). k = sid \<and> P h) reg = []"
      by (force simp: filter_empty_conv)
    then show ?thesis using e by simp
  next
    case False
    then show ?thesis using Cons e by simp
  qed
qed

subsection \<open>Single owner, disconnect and connect errors\<close>

text \<open>
  Claim C8. From the empty registry of \<^verbatim>\<open>NewConnectorCore\<close>, after any sequence of
  reconciler ticks and of connect and disconnect messages handled by the tunnel job, no
  socket id has two entries in the registry, so the registry holds at most one open tunnel
  handle per socket id. A connect message sent by \<^verbatim>\<open>HandleUpdates\<close> is for a socket
  of the list \<^verbatim>\<open>SocketsCoreHandler\<close> returned, is keyed by that socket's id, and
  that id is absent from the registry or its entry reports a closed state.
\<close>

theorem single_handle_and_connect_guard:
  "distinct (map fst (connectedTunnels_of (run c initial_state ops))) \<and>
   length (filter (\<lambda>(k, h). k = socketID \<and> \<not> conn_closed h)
             (connectedTunnels_of (run c initial_state ops))) \<le> 1 \<and>
   (\<forall>d. Send d \<in> set (drop (length tr) (snd (HandleUpdates c connectedTunnels tr sockets))) \<and>
        ctd_action d = ''connect'' \<longrightarrow>
        (\<exists>toConnect tr'.
           SocketsCoreHandler c tr sockets = (Inr toConnect, tr') \<and>
           ctd_socket d \<in> set toConnect \<and> ctd_key d = SocketID (ctd_socket d) \<and>
           (SyncMap_Get connectedTunnels (ctd_key d) = None \<or>
            (\<exists>h. SyncMap_Get connectedTunnels (ctd_key d) = Some h \<and> conn_closed h))))"
proof -
  have d: "distinct (map fst (connectedTunnels_of (run c initial_state ops)))"
    by (rule run_distinct) (simp add: initial_state_def)
  have one: "length (filter (\<lambda>(k, h). k = socketID \<and> \<not> conn_closed h)
             (connectedTunnels_of (run c initial_state ops))) \<le> 1"
    using d by (rule distinct_one_entry)
  have guard: "\<forall>d. Send d \<in> set (drop (length tr) (snd (HandleUpdates c connectedTunnels tr sockets))) \<and>
        ctd_action d = ''connect'' \<longrightarrow>
        (\<exists>toConnect tr'.
           SocketsCoreHandler c tr sockets = (Inr toConnect, tr') \<and>
           ctd_socket d \<in> set toConnect \<and> ctd_key d = SocketID (ctd_socket d) \<and>
           (SyncMap_Get connectedTunnels (ctd_key d) = None \<or>
            (\<exists>h. SyncMap_Get connectedTunnels (ctd_key d) = Some h \<and> conn_closed h)))"
  proof (intro allI impI)
    fix d
    assume h: "Send d \<in> set (drop (length tr) (snd (HandleUpdates c connectedTunnels tr sockets))) \<and>
        ctd_action d = ''connect''"
    then obtain toConnect tr' where
      "SocketsCoreHandler c tr sockets = (Inr toConnect, tr')"
      "ctd_socket d \<in> set toConnect" "ctd_key d = SocketID (ctd_socket d)"
      "\<not> IsSocketConnected connectedTunnels (ctd_key d)"
      using HandleUpdates_connects[of d tr c connectedTunnels sockets] by blast
    then show "\<exists>toConnect tr'.
           SocketsCoreHandler c tr sockets = (Inr toConnect, tr') \<and>
           ctd_socket d \<in> set toConnect \<and> ctd_key d = SocketID (ctd_socket d) \<and>
           (SyncMap_Get connectedTunnels (ctd_key d) = None \<or>
            (\<exists>h. SyncMap_Get connectedTunnels (ctd_key d) = Some h \<and> conn_closed h))"
      using IsSocketConnected_iff[of connectedTunnels "ctd_key d"] by blast
  qed
  from d one guard show ?thesis by blast
qed

theorem single_handle_and_connect_guard_witness:
  "map (\<lambda>e. case e of Send d \<Rightarrow> (ctd_action d, ctd_key d, SocketID (ctd_socket d))
                       | _ \<Rightarrow> ([], [], []))
     (snd (HandleUpdates (exampleCore []) [] [] [exampleDiscovered])) =
     [([], [], []), ([], [], []), ([], [], []), (''connect'', ''new'', ''new'')] \<and>
   SyncMap_Get [] ''new'' = None \<and>
   connectedTunnels_of
     (run (exampleCore []) initial_state
        [Handle exampleEnv \<lparr>ctd_key = ''sid-1'', ctd_socket = exampleServerSocket exampleData,
                              ctd_action = ''connect''\<rparr>,
         Handle exampleEnv \<lparr>ctd_key = ''sid-1'', ctd_socket = exampleServerSocket exampleData,
                              ctd_action = ''connect''\<rparr>]) =
     [(''sid-1'', \<lparr>conn_closed = False\<rparr>)]"
  using single_handle_and_connect_guard
          [where c = "exampleCore []" and socketID = "''sid-1''" and tr = "[]"
             and connectedTunnels = "[]" and sockets = "[exampleDiscovered]"
             and ops = "[Handle exampleEnv \<lparr>ctd_key = ''sid-1'',
                                           ctd_socket = exampleServerSocket exampleData,
                                           ctd_action = ''connect''\<rparr>,
                         Handle exampleEnv \<lparr>ctd_key = ''sid-1'',
                                           ctd_socket = exampleServerSocket exampleData,
                                           ctd_action = ''connect''\<rparr>]"]
  by (simp add: HandleUpdates_def SocketsCoreHandler_def Let_def example_simps deleteStep_def
      createStep_def CreateSocketAndTunnel_def IsSocketConnected_def SyncMap_Get_def
      BuildConnectorData_def initial_state_def TunnelConnectJob_handle_def TunnelConnnect_def
      exampleEnv_def SyncMap_Add_def exampleServerSocket_auth BuildConnectorDataByTags_def)

text \<open>
  Claim C9: the code at the failing inputs. \<^verbatim>\<open>TunnelConnnect\<close> adds the new session
  to the registry first. When \<^verbatim>\<open>GetUserIDFromAccessToken\<close>,
  \<^verbatim>\<open>GetOrganizationInfo\<close> or \<^verbatim>\<open>GetSocket\<close> fails, it returns the error and the
  registry keeps the entry, an open session that \<^verbatim>\<open>IsSocketConnected\<close> reports as
  connected; only a failure of \<^verbatim>\<open>session.Connect\<close> removes the entry.
\<close>

theorem tunnel_connect_error_keeps_entry:
  "TunnelConnnect (exampleEnv\<lparr>GetUserIDFromAccessToken_result := Inl (Error ''invalid token'')\<rparr>)
     [] (exampleServerSocket exampleData) =
     (Some (Error ''invalid token''), [(''sid-1'', \<lparr>conn_closed = False\<rparr>)]) \<and>
   TunnelConnnect (exampleEnv\<lparr>GetOrganizationInfo_result := Inl (Error ''unavailable'')\<rparr>)
     [] (exampleServerSocket exampleData) =
     (Some (Error ''unavailable''), [(''sid-1'', \<lparr>conn_closed = False\<rparr>)]) \<and>
   TunnelConnnect (exampleEnv\<lparr>GetSocket_result := (\<lambda>socketID. Inl (Error ''not found''))\<rparr>)
     [] (exampleServerSocket exampleData) =
     (Some (Error ''not found''), [(''sid-1'', \<lparr>conn_closed = False\<rparr>)]) \<and>
   SyncMap_Get [(''sid-1'', \<lparr>conn_closed = False\<rparr>)] ''sid-1'' = Some \<lparr>conn_closed = False\<rparr> \<and>
   IsSocketConnected [(''sid-1'', \<lparr>conn_closed = False\<rparr>)] ''sid-1'' \<and>
   TunnelConnnect
     (exampleEnv\<lparr>Connect_result := (\<lambda>s. (Some (Error ''dial failed''), \<lparr>conn_closed = True\<rparr>))\<rparr>)
     [] (exampleServerSocket exampleData) = (Some (Error ''dial failed''), [])"
  by (simp add: TunnelConnnect_def exampleEnv_def Let_def SyncMap_Add_def SyncMap_Get_def
      SyncMap_Delete_def IsSocketConnected_def exampleServerSocket_SocketID
      exampleServerSocket_auth BuildConnectorDataByTags_def)

text \<open>
  Claim C7: the code at the failing input. The server holds the socket \<open>sid-1\<close> of this
  connector and plugin, discovery returns nothing, and the registry holds an open tunnel
  for \<open>sid-1\<close>. The tick sends the disconnect message and then deletes the socket on
  the control plane, as claimed. The message carries the ConnectorData key, the registry is
  keyed by socket id, so the tunnel job finds no session to close and the registry still
  holds the open entry for \<open>sid-1\<close> afterwards.
\<close>

theorem disconnect_leaves_registry_entry:
  "snd (HandleUpdates (exampleCore [exampleServerSocket exampleData])
          [(''sid-1'', \<lparr>conn_closed = False\<rparr>)] [] []) =
     [GetSockets,
      Send \<lparr>ctd_key = ''db;c1;StaticSocketFinder'',
            ctd_socket = prepareApiSocket (exampleServerSocket exampleData),
            ctd_action = ''disconnect''\<rparr>,
      DeleteSocket ''sid-1''] \<and>
   TunnelConnectJob_handle exampleEnv [(''sid-1'', \<lparr>conn_closed = False\<rparr>)]
     \<lparr>ctd_key = ''db;c1;StaticSocketFinder'',
      ctd_socket = prepareApiSocket (exampleServerSocket exampleData),
      ctd_action = ''disconnect''\<rparr> = [(''sid-1'', \<lparr>conn_closed = False\<rparr>)] \<and>
   SyncMap_Get [(''sid-1'', \<lparr>conn_closed = False\<rparr>)] ''sid-1'' = Some \<lparr>conn_closed = False\<rparr>"
  by (simp add: HandleUpdates_def SocketsCoreHandler_def Let_def example_simps deleteStep_def
      TunnelConnectJob_handle_def SyncMap_Get_def)

subsection \<open>Further properties of the reconciler\<close>

text \<open>
  Name sanitization. After \<^verbatim>\<open>SanitizeName\<close> the name contains no underscore, no dot
  and no space, and sanitizing again changes nothing.
\<close>

theorem sanitized_name_is_clean:
  "CHR ''_'' \<notin> set (Name (SanitizeName s)) \<and> CHR ''.'' \<notin> set (Name (SanitizeName s)) \<and>
   CHR '' '' \<notin> set (Name (SanitizeName s)) \<and> SanitizeName (SanitizeName s) = SanitizeName s"
proof -
  have clean: "CHR ''_'' \<notin> set (Name (SanitizeName s)) \<and> CHR ''.'' \<notin> set (Name (SanitizeName s)) \<and>
      CHR '' '' \<notin> set (Name (SanitizeName s))"
    by (auto simp: SanitizeName_def Replace1_def Let_def)
  have "map (\<lambda>c. if c = CHR ''_'' then CHR ''-'' else c)
          (map (\<lambda>c. if c = CHR ''.'' then CHR ''-'' else c)
            (map (\<lambda>c. if c = CHR '' '' then CHR ''-'' else c)
              (map (\<lambda>c. if c = CHR ''.'' then CHR ''-'' else c) n))) = n"
    if "CHR ''_'' \<notin> set n" "CHR ''.'' \<notin> set n" "CHR '' '' \<notin> set n" for n :: string
    using that by (induction n) auto
  then have "Name (SanitizeName (SanitizeName s)) = Name (SanitizeName s)"
    using clean by (simp add: SanitizeName_def Replace1_def Let_def)
  then have "SanitizeName (SanitizeName s) = SanitizeName s"
    by (simp add: SanitizeName_def Let_def)
  with clean show ?thesis by blast
qed

text \<open>
  Tags mirror ConnectorData on write. A discovered socket prepared by the tick carries a
  ConnectorData with this connector's name, the plugin's name, the principal and the
  sanitized socket name, its tags are that ConnectorData's tags, and rebuilding the
  ConnectorData from the tags changes nothing.
\<close>

theorem bootstrapped_tags_mirror_connector_data:
  "\<exists>cd. ConnectorData (bootstrapSocket c s) = Some cd \<and>
         Tags (bootstrapSocket c s) = ConnectorData_Tags cd \<and>
         cd_Name cd = Name (SanitizeName s) \<and>
         cd_Connector cd = cfg_Connector_Name c \<and>
         cd_PluginName cd = discovery_Name c \<and>
         cd_ManagedBy cd = metadata_Principal c \<and>
         BuildConnectorDataByTags (bootstrapSocket c s) = bootstrapSocket c s"
proof -
  define t where "t = BuildConnectorData (cfg_Connector_Name c) (metadata_Principal c)
                        (SanitizeName (s\<lparr>PluginName := discovery_Name c\<rparr>))"
  obtain cd where cd: "ConnectorData t = Some cd"
    by (simp add: t_def BuildConnectorData_def)
  have fields: "cd_Name cd = Name (SanitizeName s)" "cd_Connector cd = cfg_Connector_Name c"
    "cd_PluginName cd = discovery_Name c" "cd_ManagedBy cd = metadata_Principal c"
    using cd by (auto simp: t_def BuildConnectorData_def SanitizeName_def Let_def)
  have boot: "bootstrapSocket c s =
      SetupTypeAndUpstreamTypeByPortOrTags (t\<lparr>Tags := ConnectorData_Tags cd\<rparr>)"
    using cd by (simp add: bootstrapSocket_def Let_def t_def)
  have tags: "Tags (SetupTypeAndUpstreamTypeByPortOrTags x) = Tags x" for x
    by (simp add: SetupTypeAndUpstreamTypeByPortOrTags_def Let_def)
  have cdt: "ConnectorData (bootstrapSocket c s) = Some cd"
    using cd by (simp add: boot)
  have tg: "Tags (bootstrapSocket c s) = ConnectorData_Tags cd"
    by (simp add: boot tags)
  have "BuildConnectorDataByTags (bootstrapSocket c s) =
        (bootstrapSocket c s)\<lparr>ConnectorData := Some cd\<rparr>"
    using tg by (rule BuildConnectorDataByTags_from_Tags)
  also have "\<dots> = bootstrapSocket c s"
    using cdt by (cases "bootstrapSocket c s") auto
  finally show ?thesis using cdt tg fields by blast
qed

text \<open>
  Disconnect before delete. For a server socket with a key that is owned by this connector
  and plugin and has no discovered socket under its key, one iteration of
  \<^verbatim>\<open>CheckSocketsToDelete\<close> sends the disconnect message for the key and then issues
  the deletion of the socket, and nothing else.
\<close>

theorem disconnect_precedes_delete:
  assumes "ConnectorData a = Some acd" "ConnectorData_Key acd \<noteq> []"
    "localSocketsMap (ConnectorData_Key acd) = None"
    "cd_Connector acd = cfg_Connector_Name c" "cd_PluginName acd = discovery_Name c"
  shows "snd (snd (deleteStep c tr a localSocketsMap)) =
    tr @ [Send \<lparr>ctd_key = ConnectorData_Key acd, ctd_socket = a, ctd_action = ''disconnect''\<rparr>,
          DeleteSocket (SocketID a)]"
  using deleteStep_owned_unmatched[where a = a and acd = acd and m = localSocketsMap
      and c = c and tr = tr] assms by simp

theorem disconnect_precedes_delete_witness:
  "snd (snd (deleteStep (exampleCore []) []
               (prepareApiSocket (exampleServerSocket exampleData)) Map.empty)) =
     [Send \<lparr>ctd_key = ''db;c1;StaticSocketFinder'',
            ctd_socket = prepareApiSocket (exampleServerSocket exampleData),
            ctd_action = ''disconnect''\<rparr>,
      DeleteSocket ''sid-1'']"
  using disconnect_precedes_delete
          [where a = "prepareApiSocket (exampleServerSocket exampleData)" and acd = exampleData
             and localSocketsMap = Map.empty and c = "exampleCore []" and tr = "[]"]
  by (simp add: example_simps)

end
